theory Spec2Isabelle
  imports Main
begin

unbundle bit_operations_syntax

text \<open>
  A model of \<^verbatim>\<open>keyboard.js\<close>: the key table, the list of unmappable keys, the two
  event listeners \<^verbatim>\<open>cancel\<close> and \<^verbatim>\<open>monitor\<close>, \<^verbatim>\<open>handler.register\<close> and the
  directory of handlers behind \<^verbatim>\<open>Keyboard.register\<close>. State is passed explicitly: a call
  takes the \<^verbatim>\<open>keys\<close> it works on and returns how it ended, the new \<^verbatim>\<open>keys\<close> and what
  it did to the page, as a list of effects.
\<close>

section \<open>The key table\<close>

text \<open>
  The table \<^verbatim>\<open>KEY\<close> of \<^verbatim>\<open>keyboard.js\<close>: key codes, and the three modifier weights
  \<^verbatim>\<open>CTRL\<close>, \<^verbatim>\<open>SHIFT\<close>, \<^verbatim>\<open>ALT\<close> that are added to a key code to form a key
  specification. JavaScript numbers that hold integers are modelled as \<open>int\<close>.
\<close>

abbreviation (input) KEY_BACKSPACE :: int where "KEY_BACKSPACE \<equiv> 8"
abbreviation (input) KEY_TAB :: int where "KEY_TAB \<equiv> 9"
abbreviation (input) KEY_ENTER :: int where "KEY_ENTER \<equiv> 13"
abbreviation (input) KEY_BREAK :: int where "KEY_BREAK \<equiv> 19"
abbreviation (input) KEY_CAPSLOCK :: int where "KEY_CAPSLOCK \<equiv> 20"
abbreviation (input) KEY_ESC :: int where "KEY_ESC \<equiv> 27"
abbreviation (input) KEY_SPACE :: int where "KEY_SPACE \<equiv> 32"
abbreviation (input) KEY_PAGEUP :: int where "KEY_PAGEUP \<equiv> 33"
abbreviation (input) KEY_PAGEDOWN :: int where "KEY_PAGEDOWN \<equiv> 34"
abbreviation (input) KEY_END :: int where "KEY_END \<equiv> 35"
abbreviation (input) KEY_HOME :: int where "KEY_HOME \<equiv> 36"
abbreviation (input) KEY_LEFT :: int where "KEY_LEFT \<equiv> 37"
abbreviation (input) KEY_UP :: int where "KEY_UP \<equiv> 38"
abbreviation (input) KEY_RIGHT :: int where "KEY_RIGHT \<equiv> 39"
abbreviation (input) KEY_DOWN :: int where "KEY_DOWN \<equiv> 40"
abbreviation (input) KEY_INSERT :: int where "KEY_INSERT \<equiv> 45"
abbreviation (input) KEY_DELETE :: int where "KEY_DELETE \<equiv> 46"
abbreviation (input) KEY_ZERO :: int where "KEY_ZERO \<equiv> 48"
abbreviation (input) KEY_ONE :: int where "KEY_ONE \<equiv> 49"
abbreviation (input) KEY_TWO :: int where "KEY_TWO \<equiv> 50"
abbreviation (input) KEY_THREE :: int where "KEY_THREE \<equiv> 51"
abbreviation (input) KEY_FOUR :: int where "KEY_FOUR \<equiv> 52"
abbreviation (input) KEY_FIVE :: int where "KEY_FIVE \<equiv> 53"
abbreviation (input) KEY_SIX :: int where "KEY_SIX \<equiv> 54"
abbreviation (input) KEY_SEVEN :: int where "KEY_SEVEN \<equiv> 55"
abbreviation (input) KEY_EIGHT :: int where "KEY_EIGHT \<equiv> 56"
abbreviation (input) KEY_NINE :: int where "KEY_NINE \<equiv> 57"
abbreviation (input) KEY_UMLAUT :: int where "KEY_UMLAUT \<equiv> 59"
abbreviation (input) KEY_A :: int where "KEY_A \<equiv> 65"
abbreviation (input) KEY_B :: int where "KEY_B \<equiv> 66"
abbreviation (input) KEY_C :: int where "KEY_C \<equiv> 67"
abbreviation (input) KEY_D :: int where "KEY_D \<equiv> 68"
abbreviation (input) KEY_E :: int where "KEY_E \<equiv> 69"
abbreviation (input) KEY_F :: int where "KEY_F \<equiv> 70"
abbreviation (input) KEY_G :: int where "KEY_G \<equiv> 71"
abbreviation (input) KEY_H :: int where "KEY_H \<equiv> 72"
abbreviation (input) KEY_I :: int where "KEY_I \<equiv> 73"
abbreviation (input) KEY_J :: int where "KEY_J \<equiv> 74"
abbreviation (input) KEY_K :: int where "KEY_K \<equiv> 75"
abbreviation (input) KEY_L :: int where "KEY_L \<equiv> 76"
abbreviation (input) KEY_M :: int where "KEY_M \<equiv> 77"
abbreviation (input) KEY_N :: int where "KEY_N \<equiv> 78"
abbreviation (input) KEY_O :: int where "KEY_O \<equiv> 79"
abbreviation (input) KEY_P :: int where "KEY_P \<equiv> 80"
abbreviation (input) KEY_Q :: int where "KEY_Q \<equiv> 81"
abbreviation (input) KEY_R :: int where "KEY_R \<equiv> 82"
abbreviation (input) KEY_S :: int where "KEY_S \<equiv> 83"
abbreviation (input) KEY_T :: int where "KEY_T \<equiv> 84"
abbreviation (input) KEY_U :: int where "KEY_U \<equiv> 85"
abbreviation (input) KEY_V :: int where "KEY_V \<equiv> 86"
abbreviation (input) KEY_W :: int where "KEY_W \<equiv> 87"
abbreviation (input) KEY_X :: int where "KEY_X \<equiv> 88"
abbreviation (input) KEY_Y :: int where "KEY_Y \<equiv> 89"
abbreviation (input) KEY_Z :: int where "KEY_Z \<equiv> 90"
abbreviation (input) KEY_NUMPAD0 :: int where "KEY_NUMPAD0 \<equiv> 96"
abbreviation (input) KEY_NUMPAD1 :: int where "KEY_NUMPAD1 \<equiv> 97"
abbreviation (input) KEY_NUMPAD2 :: int where "KEY_NUMPAD2 \<equiv> 98"
abbreviation (input) KEY_NUMPAD3 :: int where "KEY_NUMPAD3 \<equiv> 99"
abbreviation (input) KEY_NUMPAD4 :: int where "KEY_NUMPAD4 \<equiv> 100"
abbreviation (input) KEY_NUMPAD5 :: int where "KEY_NUMPAD5 \<equiv> 101"
abbreviation (input) KEY_NUMPAD6 :: int where "KEY_NUMPAD6 \<equiv> 102"
abbreviation (input) KEY_NUMPAD7 :: int where "KEY_NUMPAD7 \<equiv> 103"
abbreviation (input) KEY_NUMPAD8 :: int where "KEY_NUMPAD8 \<equiv> 104"
abbreviation (input) KEY_NUMPAD9 :: int where "KEY_NUMPAD9 \<equiv> 105"
abbreviation (input) KEY_MULTIPLY :: int where "KEY_MULTIPLY \<equiv> 106"
abbreviation (input) KEY_ADD :: int where "KEY_ADD \<equiv> 107"
abbreviation (input) KEY_SUBTRACT :: int where "KEY_SUBTRACT \<equiv> 109"
abbreviation (input) KEY_DECIMAL :: int where "KEY_DECIMAL \<equiv> 110"
abbreviation (input) KEY_DIVIDE :: int where "KEY_DIVIDE \<equiv> 111"
abbreviation (input) KEY_F1 :: int where "KEY_F1 \<equiv> 112"
abbreviation (input) KEY_F2 :: int where "KEY_F2 \<equiv> 113"
abbreviation (input) KEY_F3 :: int where "KEY_F3 \<equiv> 114"
abbreviation (input) KEY_F4 :: int where "KEY_F4 \<equiv> 115"
abbreviation (input) KEY_F5 :: int where "KEY_F5 \<equiv> 116"
abbreviation (input) KEY_F6 :: int where "KEY_F6 \<equiv> 117"
abbreviation (input) KEY_F7 :: int where "KEY_F7 \<equiv> 118"
abbreviation (input) KEY_F8 :: int where "KEY_F8 \<equiv> 119"
abbreviation (input) KEY_F9 :: int where "KEY_F9 \<equiv> 120"
abbreviation (input) KEY_F10 :: int where "KEY_F10 \<equiv> 121"
abbreviation (input) KEY_F11 :: int where "KEY_F11 \<equiv> 122"
abbreviation (input) KEY_F12 :: int where "KEY_F12 \<equiv> 123"
abbreviation (input) KEY_NUMLOCK :: int where "KEY_NUMLOCK \<equiv> 144"
abbreviation (input) KEY_SCROLL :: int where "KEY_SCROLL \<equiv> 145"
abbreviation (input) KEY_UMLAUT_2 :: int where "KEY_UMLAUT_2 \<equiv> 186"
abbreviation (input) KEY_PLUS :: int where "KEY_PLUS \<equiv> 187"
abbreviation (input) KEY_COMMA :: int where "KEY_COMMA \<equiv> 188"
abbreviation (input) KEY_MINUS :: int where "KEY_MINUS \<equiv> 189"
abbreviation (input) KEY_PERIOD :: int where "KEY_PERIOD \<equiv> 190"
abbreviation (input) KEY_APOSTROPHE :: int where "KEY_APOSTROPHE \<equiv> 191"
abbreviation (input) KEY_AE :: int where "KEY_AE \<equiv> 192"
abbreviation (input) KEY_ACCENT :: int where "KEY_ACCENT \<equiv> 219"
abbreviation (input) KEY_HALF :: int where "KEY_HALF \<equiv> 220"
abbreviation (input) KEY_AA :: int where "KEY_AA \<equiv> 221"
abbreviation (input) KEY_OE :: int where "KEY_OE \<equiv> 222"
abbreviation (input) KEY_ANGLE :: int where "KEY_ANGLE \<equiv> 226"
abbreviation (input) KEY_CTRL :: int where "KEY_CTRL \<equiv> 256"
abbreviation (input) KEY_SHIFT :: int where "KEY_SHIFT \<equiv> 512"
abbreviation (input) KEY_ALT :: int where "KEY_ALT \<equiv> 1024"

text \<open>The private constants of the \<^verbatim>\<open>Keyboard\<close> module.\<close>

abbreviation (input) KEYMASK :: int where "KEYMASK \<equiv> 255"
abbreviation (input) KEYSHIFT :: int where "KEYSHIFT \<equiv> 16"
abbreviation (input) KEYCTRL :: int where "KEYCTRL \<equiv> 17"
abbreviation (input) KEYALT :: int where "KEYALT \<equiv> 18"

section \<open>Values, events and effects\<close>

text \<open>
  The library adapter \<^verbatim>\<open>lib\<close> is built from Prototype when \<^verbatim>\<open>window.Prototype\<close> is
  set and from jQuery otherwise; \<open>webkit\<close> and \<open>msie\<close> are its two browser flags.
\<close>

record lib =
  prototype :: bool
  webkit :: bool
  msie :: bool

text \<open>
  JavaScript functions and objects are opaque; they are referred to by name. A key handler
  is what the documented interface accepts as \<^verbatim>\<open>method\<close>: a function, or an array whose
  first element is the context object and whose second element is the function. Both are
  truthy values.
\<close>

type_synonym fn = string
type_synonym obj = string

datatype handler = Function fn | ContextPair obj fn

text \<open>
  A key event, with the properties the module reads. \<open>keyIdentifier\<close> is \<open>None\<close> when
  the browser does not provide the property.
\<close>

record event =
  keyCode :: int
  ctrlKey :: bool
  shiftKey :: bool
  altKey :: bool
  keyIdentifier :: "string option"
  target :: obj

text \<open>
  A keyspec is the array \<^verbatim>\<open>[keyCode, ctrl, shift, alt]\<close> that indexes the object
  \<^verbatim>\<open>keys\<close>. JavaScript turns the array into the property name
  \<^verbatim>\<open>"70,true,false,false"\<close>; two arrays of a number and three booleans give the same
  name exactly when they are equal component by component, so \<^verbatim>\<open>keys\<close> is a map from
  tuples. An absent property reads as \<^verbatim>\<open>undefined\<close>, here \<open>None\<close>.
\<close>

type_synonym keyspec = "int \<times> bool \<times> bool \<times> bool"
type_synonym keys = "keyspec \<rightharpoonup> handler"

text \<open>
  What a call does besides changing \<^verbatim>\<open>keys\<close>, in the order it happens:
  \<^item> \<open>Alert text\<close>: \<^verbatim>\<open>alert(text)\<close>;
  \<^item> \<open>StopEvent e\<close>: \<^verbatim>\<open>lib.stopEvent(e)\<close>, which prevents the default action of \<open>e\<close>
    and stops its propagation;
  \<^item> \<open>Call f this e\<close>: \<^verbatim>\<open>f.call(this, e)\<close>;
  \<^item> \<open>ZeroKeyCode\<close>: the assignment \<^verbatim>\<open>event.keyCode = 0\<close>;
  \<^item> \<open>SetStyle id\<close>: \<^verbatim>\<open>lib.setStyle(id, {left: ..., top: ...})\<close> with the scroll offsets
    of the document;
  \<^item> \<open>AppendAccessKeyDiv id k\<close>: a new, invisible \<^verbatim>\<open>div\<close> with this id and access key
    appended to the target;
  \<^item> \<open>Observe el name\<close>: \<^verbatim>\<open>lib.observe(el, name, listener)\<close>;
  \<^item> \<open>MakeFocusable el\<close>: the \<^verbatim>\<open>tabIndex\<close> adjustment of \<^verbatim>\<open>makeHandler\<close>;
  \<^item> \<open>ObserveDomLoaded\<close>: a registration put off until \<^verbatim>\<open>dom:loaded\<close>.
  A called function runs to its end and does not call back into the module.
\<close>

datatype element = Document | Element string

datatype effect =
    Alert string
  | StopEvent event
  | Call fn obj event
  | ZeroKeyCode
  | SetStyle string
  | AppendAccessKeyDiv string string
  | Observe element string
  | MakeFocusable element
  | ObserveDomLoaded element int handler bool

section \<open>Printing numbers and booleans\<close>

text \<open>
  String concatenation in JavaScript prints an integer in decimal and a boolean as
  \<^verbatim>\<open>true\<close> or \<^verbatim>\<open>false\<close>.
\<close>

definition digit :: "nat \<Rightarrow> char" where
  "digit d = char_of (of_char (CHR ''0'') + d)"

fun decimal :: "nat \<Rightarrow> string \<Rightarrow> string" where
  "decimal n printed =
     (if n div 10 = 0 then digit n # printed
      else decimal (n div 10) (digit (n mod 10) # printed))"

definition number_text :: "int \<Rightarrow> string" where
  "number_text i = (if 0 \<le> i then decimal (nat i) [] else CHR ''-'' # decimal (nat (- i)) [])"

definition string_of_bool :: "bool \<Rightarrow> string" where
  "string_of_bool b = (if b then ''true'' else ''false'')"

section \<open>The list of known unmappable keys\<close>

text \<open>
  Each entry of the list is \<^verbatim>\<open>{key, name, browsers, does}\<close>, the last one optional.
  Characters outside ASCII are the bytes of the source file (UTF-8).
\<close>

type_synonym unmappable = "int \<times> string \<times> string \<times> string option"

definition unmappable_list :: "unmappable list" where
  "unmappable_list = [
    (KEY_CTRL + KEY_TAB, ''Ctrl+Tab'', ''Win-FF3, Win-IE7'', Some (''next tab'')),
    (KEY_ALT + KEY_TAB, ''Alt+Tab'', ''Win-all'', Some (''task switch'')),
    (KEY_ALT + KEY_ENTER, ''Alt+Enter'', ''Win-IE7'', Some (''full screen'')),
    (KEY_BREAK, ''Break'', ''Mac-all'', Some (''key doesn'' @ [CHR 0x27] @ ''t exist on Mac'')),
    (KEY_CTRL + KEY_BREAK, ''Ctrl+Break'', ''Win-all, Mac-all'', Some (''nothing on Win, key doesn'' @ [CHR 0x27] @ ''t exist on Mac'')),
    (KEY_SHIFT + KEY_BREAK, ''Shift+Break'', ''Mac-all'', Some (''key doesn'' @ [CHR 0x27] @ ''t exist on Mac'')),
    (KEY_ALT + KEY_BREAK, ''Alt+Break'', ''Mac-all'', Some (''key doesn'' @ [CHR 0x27] @ ''t exist on Mac'')),
    (KEY_CAPSLOCK, ''CapsLock'', ''all browsers'', None),
    (KEY_CTRL + KEY_CAPSLOCK, ''Ctrl+CapsLock'', ''all browsers'', None),
    (KEY_SHIFT + KEY_CAPSLOCK, ''Shift+CapsLock'', ''all browsers'', None),
    (KEY_ALT + KEY_CAPSLOCK, ''Alt+CapsLock'', ''all browsers'', None),
    (KEY_CTRL + KEY_ESC, ''Ctrl+Esc'', ''Win-all'', Some (''start menu'')),
    (KEY_ALT + KEY_ESC, ''Alt+Esc'', ''Win-all'', Some (''task switch'')),
    (KEY_CTRL + KEY_SPACE, ''Ctrl+Space'', ''Mac-all'', Some (''spotlight'')),
    (KEY_ALT + KEY_SPACE, ''Alt+Space'', ''Win-all'', Some (''system menu'')),
    (KEY_CTRL + KEY_PAGEUP, ''Ctrl+PAGEUP'', ''Win-FF3'', Some (''previous tab'')),
    (KEY_CTRL + KEY_PAGEDOWN, ''Ctrl+PAGEDOWN'', ''Win-FF3'', Some (''next tab'')),
    (KEY_ALT + KEY_HOME, ''Alt+Home'', ''Win-IE7'', Some (''home page'')),
    (KEY_ALT + KEY_LEFT, ''Alt+Left'', ''Win-Safari3'', Some (''history back'')),
    (KEY_ALT + KEY_RIGHT, ''Alt+Right'', ''Win-Safari3'', Some (''history forward'')),
    (KEY_CTRL + KEY_ZERO, ''Ctrl+0'', ''Win-IE7, Win-Safari3'', Some (''reset zoom'')),
    (KEY_UMLAUT, [CHR 0xEF, CHR 0xBF, CHR 0xBD], ''Mac-Safari3'', None),
    (KEY_CTRL + KEY_UMLAUT, ''Ctrl+'' @ [CHR 0xEF, CHR 0xBF, CHR 0xBD], ''Mac-Safari3'', None),
    (KEY_SHIFT + KEY_UMLAUT, ''Shift+'' @ [CHR 0xEF, CHR 0xBF, CHR 0xBD], ''Mac-Safari3'', None),
    (KEY_ALT + KEY_UMLAUT, ''Alt+'' @ [CHR 0xEF, CHR 0xBF, CHR 0xBD], ''Mac-Safari3'', None),
    (KEY_ALT + KEY_A, ''Alt+A'', ''Win-IE7'', Some (''address bar'')),
    (KEY_ALT + KEY_B, ''Alt+B'', ''Win-Safari3'', Some (''bookmarks'')),
    (KEY_ALT + KEY_D, ''Alt+D'', ''Win-IE7, Win-Safari3'', Some (''address bar'')),
    (KEY_ALT + KEY_E, ''Alt+E'', ''Win-Safari3'', Some (''edit menu'')),
    (KEY_CTRL + KEY_F, ''Ctrl+F'', ''Win-IE7, WIn-Safari3'', Some (''find'')),
    (KEY_ALT + KEY_F, ''Alt+F'', ''Win-Safari3'', Some (''file menu'')),
    (KEY_ALT + KEY_H, ''Alt+H'', ''Win-Safari3'', Some (''help menu'')),
    (KEY_ALT + KEY_I, ''Alt+I'', ''Win-Safari3'', Some (''history menu'')),
    (KEY_CTRL + KEY_O, ''Ctrl+O'', ''Win-IE7, Win-Safari3'', Some (''open'')),
    (KEY_CTRL + KEY_P, ''Ctrl+P'', ''Win-IE7, Win-Safari3'', Some (''print'')),
    (KEY_ALT + KEY_V, ''Alt+V'', ''Win-Safari3'', Some (''view menu'')),
    (KEY_ALT + KEY_W, ''Alt+W'', ''Win-Safari3'', Some (''window menu'')),
    (KEY_SHIFT + KEY_NUMPAD0, ''Shift+Pad0'', ''all browsers'', None),
    (KEY_SHIFT + KEY_NUMPAD1, ''Shift+Pad1'', ''all browsers'', None),
    (KEY_SHIFT + KEY_NUMPAD2, ''Shift+Pad2'', ''all browsers'', None),
    (KEY_SHIFT + KEY_NUMPAD3, ''Shift+Pad3'', ''all browsers'', None),
    (KEY_SHIFT + KEY_NUMPAD4, ''Shift+Pad4'', ''all browsers'', None),
    (KEY_SHIFT + KEY_NUMPAD5, ''Shift+Pad5'', ''all browsers'', None),
    (KEY_SHIFT + KEY_NUMPAD6, ''Shift+Pad6'', ''all browsers'', None),
    (KEY_SHIFT + KEY_NUMPAD7, ''Shift+Pad7'', ''all browsers'', None),
    (KEY_SHIFT + KEY_NUMPAD8, ''Shift+Pad8'', ''all browsers'', None),
    (KEY_SHIFT + KEY_NUMPAD9, ''Shift+Pad9'', ''all browsers'', None),
    (KEY_CTRL + KEY_ADD, ''Ctrl+Pad+'', ''Win-IE7'', Some (''zoom'')),
    (KEY_CTRL + KEY_SUBTRACT, ''Ctrl+Pad-'', ''Win-IE7'', Some (''zoom'')),
    (KEY_SHIFT + KEY_DECIMAL, ''Shift+PadDecimal'', ''all browsers'', None),
    (KEY_F1, ''F1'', ''Win-IE7'', Some (''help'')),
    (KEY_CTRL + KEY_F1, ''Ctrl+F1'', ''Win-IE7, Mac-Safari3'', Some (''help on Windows, nothing on Mac'')),
    (KEY_SHIFT + KEY_F1, ''Shift+F1'', ''Win-IE7'', Some (''help'')),
    (KEY_CTRL + KEY_F3, ''Ctrl+F3'', ''Mac-all'', Some (''finder'')),
    (KEY_CTRL + KEY_F4, ''Ctrl+F4'', ''Win-all'', Some (''close window'')),
    (KEY_ALT + KEY_F4, ''Alt+F4'', ''Win-all'', Some (''close browser'')),
    (KEY_F5, ''F5'', ''Win-Safari3'', Some (''reload'')),
    (KEY_ALT + KEY_F6, ''Alt+F6'', ''Win-IE7, Win-Safari3'', None),
    (KEY_CTRL + KEY_F8, ''Ctrl+F8'', ''Mac-all'', Some (''time machine'')),
    (KEY_F9, ''F9'', ''Mac-all'', Some (''expos'' @ [CHR 0xC3, CHR 0xA9])),
    (KEY_SHIFT + KEY_F9, ''Shift+F9'', ''Mac-all'', Some (''expos'' @ [CHR 0xC3, CHR 0xA9])),
    (KEY_F10, ''F10'', ''Mac-all'', Some (''expos'' @ [CHR 0xC3, CHR 0xA9])),
    (KEY_SHIFT + KEY_F10, ''Shift+F10'', ''Win-Safari3, Mac-all'', Some (''context menu on Windows, expos'' @ [CHR 0xC3, CHR 0xA9] @ '' on Mac'')),
    (KEY_F11, ''F11'', ''Mac-all'', Some (''expos'' @ [CHR 0xC3, CHR 0xA9])),
    (KEY_SHIFT + KEY_F11, ''Shift+F11'', ''Mac-all'', Some (''expos'' @ [CHR 0xC3, CHR 0xA9])),
    (KEY_F12, ''F12'', ''Mac-all'', Some (''expos'' @ [CHR 0xC3, CHR 0xA9])),
    (KEY_SHIFT + KEY_F12, ''Shift+F12'', ''Mac-all'', Some (''expos'' @ [CHR 0xC3, CHR 0xA9])),
    (KEY_NUMLOCK, ''NumLock'', ''all browsers'', None),
    (KEY_CTRL + KEY_NUMLOCK, ''Ctrl+NumLock'', ''all browsers'', None),
    (KEY_SHIFT + KEY_NUMLOCK, ''Shift+NumLock'', ''all browsers'', None),
    (KEY_ALT + KEY_NUMLOCK, ''Alt+NumLock'', ''all browsers'', None),
    (KEY_SCROLL, ''ScrollLock'', ''all browsers'', None),
    (KEY_CTRL + KEY_SCROLL, ''Ctrl+ScrollLock'', ''all browsers'', None),
    (KEY_SHIFT + KEY_SCROLL, ''Shift+ScrollLock'', ''all browsers'', None),
    (KEY_ALT + KEY_SCROLL, ''Alt+ScrollLock'', ''all browsers'', None),
    (KEY_PLUS, ''+'', ''Win-FF2, Win-FF3'', None),
    (KEY_CTRL + KEY_PLUS, ''Ctrl++'', ''Win-FF2, Win-FF3, Win-IE7, Win-Safari3'', Some (''zoom in FF2, IE7 and Safari 3'')),
    (KEY_SHIFT + KEY_PLUS, ''Shift++'', ''Win-FF2, Win-FF3'', None),
    (KEY_ALT + KEY_PLUS, ''Alt++'', ''Win-FF2, Win-FF3'', None),
    (KEY_MINUS, ''-'', ''Win-FF2, Win-FF3'', None),
    (KEY_CTRL + KEY_MINUS, ''Ctrl+-'', ''Win-FF2, Win-FF3, Win-IE7, Win-Safari3'', Some (''zoom in IE7 and Safari 3'')),
    (KEY_SHIFT + KEY_MINUS, ''Shift+-'', ''Win-FF2, Win-FF3'', None),
    (KEY_ALT + KEY_MINUS, ''Alt+-'', ''Win-FF2, Win-FF3'', None),
    (KEY_ALT + KEY_AE, ''Alt+'' @ [CHR 0xC3, CHR 0x86], ''Win-IE7'', None),
    (KEY_ACCENT, [CHR 0xC2, CHR 0xB4], ''Mac-Safari3'', None),
    (KEY_CTRL + KEY_ACCENT, ''Ctrl+'' @ [CHR 0xC2, CHR 0xB4], ''Mac-Safari3'', None),
    (KEY_SHIFT + KEY_ACCENT, ''Shift+'' @ [CHR 0xC2, CHR 0xB4], ''Mac-Safari3'', None),
    (KEY_ALT + KEY_ACCENT, ''Alt+'' @ [CHR 0xC2, CHR 0xB4], ''Mac-Safari3'', None),
    (KEY_HALF, [CHR 0xC2, CHR 0xBD], ''Mac-Safari3'', None),
    (KEY_CTRL + KEY_HALF, ''Ctrl+'' @ [CHR 0xC2, CHR 0xBD], ''Mac-Safari3'', None),
    (KEY_SHIFT + KEY_HALF, ''Shift+'' @ [CHR 0xC2, CHR 0xBD], ''Mac-Safari3'', None),
    (KEY_ALT + KEY_HALF, ''Alt+'' @ [CHR 0xC2, CHR 0xBD], ''Mac-Safari3'', None),
    (KEY_ALT, ''Alt'', ''IE7'', Some (''activate menu''))
  ]"

text \<open>
  The function applied to each entry builds the text and stores it under the entry's key:
  \<^verbatim>\<open>broken[obj.key] = text\<close>. Both \<^verbatim>\<open>lib.each\<close> visit the entries in order.
\<close>

definition unmappable_text :: "unmappable \<Rightarrow> string" where
  "unmappable_text obj =
     (case obj of (k, name, browsers, does) \<Rightarrow>
        (let text = name @ '' is unmappable in '' @ browsers in
         case does of
           Some d \<Rightarrow> text @ '' ('' @ d @ '')''
         | None \<Rightarrow> text))"

fun each_broken :: "unmappable list \<Rightarrow> (int \<rightharpoonup> string) \<Rightarrow> (int \<rightharpoonup> string)" where
  "each_broken [] broken = broken"
| "each_broken (obj # objs) broken = each_broken objs (broken(fst obj \<mapsto> unmappable_text obj))"

definition broken :: "int \<rightharpoonup> string" where
  "broken = each_broken unmappable_list Map.empty"

section \<open>The Safari translation table\<close>

definition safariTranslator :: "string \<rightharpoonup> int" where
  "safariTranslator = map_of [
    (''U+0022'', KEY_TWO),
    (''U+0026'', KEY_SIX),
    (''U+0027'', KEY_APOSTROPHE),
    (''U+0028'', KEY_EIGHT),
    (''U+0029'', KEY_NINE),
    (''U+002A'', KEY_APOSTROPHE),
    (''U+002F'', KEY_SEVEN),
    (''U+003A'', KEY_PERIOD),
    (''U+003B'', KEY_COMMA),
    (''U+003C'', KEY_ANGLE),
    (''U+003D'', KEY_ZERO),
    (''U+003E'', KEY_ANGLE),
    (''U+003F'', KEY_PLUS),
    (''U+00C5'', KEY_AA),
    (''U+00C6'', KEY_AE),
    (''U+00D8'', KEY_OE),
    (''U+00E5'', KEY_AA),
    (''U+00E6'', KEY_AE),
    (''U+00F8'', KEY_OE),
    (''U+20AC'', KEY_FOUR)
  ]"

section \<open>The two event listeners\<close>

text \<open>\<^verbatim>\<open>isAccessKey\<close>: the access keys of Internet Explorer, Alt with a digit or a letter.\<close>

definition isAccessKey :: "int \<Rightarrow> bool \<Rightarrow> bool" where
  "isAccessKey k alt \<longleftrightarrow>
     alt \<and> ((KEY_ZERO \<le> k \<and> k \<le> KEY_NINE) \<or> (KEY_A \<le> k \<and> k \<le> KEY_Z))"

text \<open>
  \<^verbatim>\<open>safariTranslator\<close> and \<^verbatim>\<open>handlers\<close> are plain objects read with names that come
  from outside, so a read also finds what every object inherits from
  \<^verbatim>\<open>Object.prototype\<close>: \<^verbatim>\<open>safariTranslator['constructor']\<close> is a function. Which names
  are inherited is the browser's matter; \<open>inherited\<close> is that set, and \<open>object_members\<close>
  are the names every browser has. An inherited member is a function or an object, so it
  is truthy, and it is neither a number nor a handler. An own property hides an inherited
  member of the same name. (\<^verbatim>\<open>broken\<close> is read with a number, whose name is made of
  digits, and \<^verbatim>\<open>keys\<close> with an array, whose name has commas; no inherited name is of
  either form.)
\<close>

definition object_members :: "string set" where
  "object_members =
     {''constructor'', ''toString'', ''toLocaleString'', ''valueOf'', ''hasOwnProperty'',
      ''isPrototypeOf'', ''propertyIsEnumerable''}"

text \<open>
  The first element of the array that a listener builds: a key code, or the inherited
  member of that name. \<open>table_entry\<close> is \<^verbatim>\<open>safariTranslator[ident]\<close>.
\<close>

datatype code = Code int | Member string

type_synonym pressed = "code \<times> bool \<times> bool \<times> bool"

definition table_entry :: "string set \<Rightarrow> string \<Rightarrow> code option" where
  "table_entry inherited ident =
     (case safariTranslator ident of
        Some k \<Rightarrow> Some (Code k)
      | None \<Rightarrow> if ident \<in> inherited then Some (Member ident) else None)"

text \<open>
  The test \<^verbatim>\<open>event.keyIdentifier && safariTranslator[event.keyIdentifier]\<close>: the
  identifier is there and not the empty string, and the table gives a truthy value for it
  (every entry is a non-zero number).
\<close>

definition translatable :: "string set \<Rightarrow> event \<Rightarrow> bool" where
  "translatable inherited event =
     (case keyIdentifier event of
        None \<Rightarrow> False
      | Some ident \<Rightarrow> ident \<noteq> [] \<and> table_entry inherited ident \<noteq> None)"

text \<open>
  \<^verbatim>\<open>keys[key]\<close> for the array of a listener. Only \<^verbatim>\<open>register\<close> writes \<^verbatim>\<open>keys\<close>, under
  names that start with a number; the name of an array that starts with an inherited
  member starts with the text of a function or an object, so nothing is found under it.
\<close>

definition keys_at :: "keys \<Rightarrow> pressed \<Rightarrow> handler option" where
  "keys_at keys key =
     (case key of
        (Code k, flags) \<Rightarrow> keys (k, flags)
      | (Member m, flags) \<Rightarrow> None)"

text \<open>The array computed by \<^verbatim>\<open>cancel\<close>, the listener for \<^verbatim>\<open>keydown\<close>.\<close>

definition cancel_key :: "string set \<Rightarrow> lib \<Rightarrow> event \<Rightarrow> pressed" where
  "cancel_key inherited lib event =
     (if webkit lib \<and> translatable inherited event
      then (the (table_entry inherited (the (keyIdentifier event))),
            ctrlKey event, shiftKey event, altKey event)
      else (Code (keyCode event), ctrlKey event, shiftKey event, altKey event))"

text \<open>
  \<^verbatim>\<open>cancel(keys, event)\<close> stops the event when the keyspec is mapped. In Internet
  Explorer it then sets the key code of a function key to zero, and moves the access-key
  \<^verbatim>\<open>div\<close> on screen, reading the key code after that assignment.
\<close>

definition cancel :: "string set \<Rightarrow> lib \<Rightarrow> keys \<Rightarrow> event \<Rightarrow> effect list" where
  "cancel inherited lib keys event =
     (case keys_at keys (cancel_key inherited lib event) of
        None \<Rightarrow> []
      | Some handler \<Rightarrow>
          (let fkey = (msie lib \<and> 112 \<le> keyCode event \<and> keyCode event \<le> 123);
               event' = (if fkey then event\<lparr>keyCode := 0\<rparr> else event)
           in [StopEvent event]
              @ (if fkey then [ZeroKeyCode] else [])
              @ (if msie lib \<and> isAccessKey (keyCode event') (altKey event')
                 then [SetStyle (''__altkeyhandler_'' @ number_text (keyCode event'))]
                 else [])))"

text \<open>The array computed by \<^verbatim>\<open>monitor\<close>, the listener for \<^verbatim>\<open>keyup\<close>.\<close>

definition monitor_key :: "string set \<Rightarrow> lib \<Rightarrow> event \<Rightarrow> pressed" where
  "monitor_key inherited lib event =
     (if webkit lib \<and> translatable inherited event
      then (the (table_entry inherited (the (keyIdentifier event))),
            ctrlKey event, shiftKey event, altKey event)
      else (Code (keyCode event), ctrlKey event, shiftKey event, altKey event))"

text \<open>
  \<^verbatim>\<open>monitor(keys, event)\<close> calls the handler mapped to the keyspec, a function in the
  context of the event's target and an array's function in the array's context, and then
  stops the event.
\<close>

definition monitor :: "string set \<Rightarrow> lib \<Rightarrow> keys \<Rightarrow> event \<Rightarrow> effect list" where
  "monitor inherited lib keys event =
     (case keys_at keys (monitor_key inherited lib event) of
        None \<Rightarrow> []
      | Some handler \<Rightarrow>
          (case handler of
             Function f \<Rightarrow> [Call f (target event) event]
           | ContextPair this f \<Rightarrow> [Call f this event])
          @ [StopEvent event])"

section \<open>Registering a key\<close>

text \<open>
  The first lines of \<^verbatim>\<open>handler.register\<close> split the key specification into the key
  code and the three modifier flags.
\<close>

definition decode :: "int \<Rightarrow> keyspec" where
  "decode key =
     (let keyCode = key AND KEYMASK;
          ctrlKey = (key AND KEY_CTRL \<noteq> 0);
          shiftKey = (key AND KEY_SHIFT \<noteq> 0);
          altKey = (key AND KEY_ALT \<noteq> 0)
      in (keyCode, ctrlKey, shiftKey, altKey))"

text \<open>The mappings of Ctrl, Shift and Alt alone get the modifier's own key code.\<close>

definition solitary :: "int \<Rightarrow> keyspec \<Rightarrow> keyspec" where
  "solitary key index =
     (if fst index = 0 then
        (if key = KEY_CTRL then (KEYCTRL, False, False, False)
         else if key = KEY_SHIFT then (KEYSHIFT, False, False, False)
         else if key = KEY_ALT then (KEYALT, False, False, False)
         else index)
      else index)"

text \<open>The index under which \<^verbatim>\<open>register\<close> stores the handler of a key specification.\<close>

definition index_of :: "int \<Rightarrow> keyspec" where
  "index_of key = solitary key (decode key)"

definition broken_alert :: "string \<Rightarrow> string" where
  "broken_alert text =
     text @ ''.'' @ [CHR 0x0A] @ ''This key mapping has been ignored.'' @ [CHR 0x0A]
     @ ''If you really want to map this key, set the override parameter to true.''"

definition mapped_alert :: "keyspec \<Rightarrow> string" where
  "mapped_alert index =
     (case index of (k, ctrl, shift, alt) \<Rightarrow>
        ''Key '' @ number_text k @ '' (ctrl='' @ string_of_bool ctrl
        @ '', shift='' @ string_of_bool shift @ '', alt='' @ string_of_bool alt
        @ '') already mapped!'')"

text \<open>
  How a call of \<^verbatim>\<open>register\<close> ends. The source returns \<^verbatim>\<open>undefined\<close> on every path;
  the two early returns are named after the errors of the specification.
  \<open>ScriptError\<close> is an exception that leaves the call.
\<close>

datatype outcome =
    Registered
  | BrokenChordError string
  | ConflictError keyspec
  | Deferred
  | ScriptError

text \<open>
  \<^verbatim>\<open>handler.register(key, method, override)\<close> on the \<^verbatim>\<open>keys\<close> of its handler: the
  outcome, the new \<^verbatim>\<open>keys\<close> and the effects.

  In Internet Explorer a mapping of Alt with a digit or a letter gets an access-key
  \<^verbatim>\<open>div\<close>. The \<^verbatim>\<open>div\<close> is styled with \<^verbatim>\<open>Element.setStyle\<close>, not with
  \<^verbatim>\<open>lib.setStyle\<close>. \<^verbatim>\<open>Element.setStyle\<close> is Prototype's (the file's header lists
  \<^verbatim>\<open>Element\<close> among the globals of Prototype); with jQuery alone the call is an error,
  raised after the handler has been stored and before the \<^verbatim>\<open>div\<close> is appended.
\<close>

definition register :: "lib \<Rightarrow> keys \<Rightarrow> int \<Rightarrow> handler \<Rightarrow> bool \<Rightarrow> outcome \<times> keys \<times> effect list" where
  "register lib keys key meth override =
     (if broken key \<noteq> None \<and> \<not> override then
        (BrokenChordError (the (broken key)), keys, [Alert (broken_alert (the (broken key)))])
      else
        (let index = solitary key (decode key) in
         if keys index \<noteq> None then
           (ConflictError index, keys, [Alert (mapped_alert index)])
         else
           (let keys1 = keys(index \<mapsto> meth);
                keys2 = (if fst index = KEY_UMLAUT
                         then keys1((KEY_UMLAUT_2, snd index) \<mapsto> meth)
                         else keys1)
            in if msie lib \<and> isAccessKey (fst index) (snd (snd (snd index))) then
                 (if prototype lib then
                    (Registered, keys2,
                     [AppendAccessKeyDiv (''__altkeyhandler_'' @ number_text (fst index))
                        [char_of (fst index)]])
                  else (ScriptError, keys2, []))
               else (Registered, keys2, []))))"

section \<open>The handler directory\<close>

text \<open>
  \<^verbatim>\<open>handlers\<close> holds one handler per element, each with \<^verbatim>\<open>keys\<close> of its own. An
  element is named by its id, which is not the name the document is stored under.
  \<^verbatim>\<open>makeHandler\<close> starts with empty \<^verbatim>\<open>keys\<close>, observes \<^verbatim>\<open>keydown\<close> and
  \<^verbatim>\<open>keyup\<close> on the element and makes it focusable.
\<close>

type_synonym handlers = "element \<rightharpoonup> keys"

definition makeHandler :: "element \<Rightarrow> keys \<times> effect list" where
  "makeHandler element =
     (Map.empty, [Observe element ''keydown'', Observe element ''keyup'', MakeFocusable element])"

text \<open>
  \<^verbatim>\<open>handlers[id]\<close>: the handler made for the element, or the inherited member when the
  element's id is an inherited name and no handler is stored under it.
\<close>

datatype slot = Handler keys | Inherited

definition handlers_at :: "string set \<Rightarrow> handlers \<Rightarrow> element \<Rightarrow> slot option" where
  "handlers_at inherited handlers element =
     (case handlers element of
        Some keys \<Rightarrow> Some (Handler keys)
      | None \<Rightarrow>
          (case element of
             Document \<Rightarrow> None
           | Element name \<Rightarrow> if name \<in> inherited then Some Inherited else None))"

text \<open>
  \<^verbatim>\<open>handlerFor(element)\<close> makes a handler when \<^verbatim>\<open>handlers[id]\<close> is not truthy, and
  returns \<^verbatim>\<open>handlers[id]\<close>.
\<close>

definition handlerFor :: "string set \<Rightarrow> handlers \<Rightarrow> element \<Rightarrow> slot \<times> handlers \<times> effect list" where
  "handlerFor inherited handlers element =
     (case handlers_at inherited handlers element of
        None \<Rightarrow>
          (Handler (fst (makeHandler element)),
           handlers(element \<mapsto> fst (makeHandler element)),
           snd (makeHandler element))
      | Some found \<Rightarrow> (found, handlers, []))"

text \<open>
  \<^verbatim>\<open>Keyboard.register(element, key, method, override)\<close>. \<open>ready\<close> is the test
  \<^verbatim>\<open>document && document.body\<close>. Before the document has a body the registration is put
  off with \<^verbatim>\<open>document.observe\<close>, which is Prototype's as well. An inherited member has
  no \<^verbatim>\<open>register\<close>, so the call on it is an error.
\<close>

definition Keyboard_register ::
  "string set \<Rightarrow> lib \<Rightarrow> bool \<Rightarrow> handlers \<Rightarrow> element \<Rightarrow> int \<Rightarrow> handler \<Rightarrow> bool
     \<Rightarrow> outcome \<times> handlers \<times> effect list" where
  "Keyboard_register inherited lib ready handlers element key meth override =
     (if ready then
        (let (found, handlers1, made) = handlerFor inherited handlers element in
         case found of
           Handler keys \<Rightarrow>
             (let (result, keys1, effects) = register lib keys key meth override
              in (result, handlers1(element \<mapsto> keys1), made @ effects))
         | Inherited \<Rightarrow> (ScriptError, handlers1, made))
      else if prototype lib then
        (Deferred, handlers, [ObserveDomLoaded element key meth override])
      else (ScriptError, handlers, []))"

definition registerGlobal ::
  "string set \<Rightarrow> lib \<Rightarrow> bool \<Rightarrow> handlers \<Rightarrow> int \<Rightarrow> handler \<Rightarrow> bool
     \<Rightarrow> outcome \<times> handlers \<times> effect list" where
  "registerGlobal inherited lib ready handlers key meth override =
     Keyboard_register inherited lib ready handlers Document key meth override"

text \<open>
  A native \<^verbatim>\<open>keydown\<close> or \<^verbatim>\<open>keyup\<close> event on an element runs the listener that
  \<^verbatim>\<open>makeHandler\<close> observed there, with the \<^verbatim>\<open>keys\<close> of that element's handler.
\<close>

definition keydown ::
  "string set \<Rightarrow> lib \<Rightarrow> handlers \<Rightarrow> element \<Rightarrow> event \<Rightarrow> handlers \<times> effect list" where
  "keydown inherited lib handlers element event =
     (case handlers element of
        None \<Rightarrow> (handlers, [])
      | Some keys \<Rightarrow> (handlers, cancel inherited lib keys event))"

definition keyup ::
  "string set \<Rightarrow> lib \<Rightarrow> handlers \<Rightarrow> element \<Rightarrow> event \<Rightarrow> handlers \<times> effect list" where
  "keyup inherited lib handlers element event =
     (case handlers element of
        None \<Rightarrow> (handlers, [])
      | Some keys \<Rightarrow> (handlers, monitor inherited lib keys event))"

text \<open>
  The \<^verbatim>\<open>keys\<close> that \<^verbatim>\<open>register\<close> works on for an element whose id is not an
  inherited name: those of the element's handler, or the empty ones of a new handler.
  \<open>lookup\<close> reads \<^verbatim>\<open>keys[index]\<close> there.
\<close>

definition keys_of :: "handlers \<Rightarrow> element \<Rightarrow> keys" where
  "keys_of handlers element =
     (case handlers element of
        None \<Rightarrow> Map.empty
      | Some keys \<Rightarrow> keys)"

definition lookup :: "handlers \<Rightarrow> element \<Rightarrow> keyspec \<Rightarrow> handler option" where
  "lookup handlers element index = keys_of handlers element index"

section \<open>Normalisation as the specification words it\<close>

text \<open>
  The specification's \<open>normalize\<close>: on a platform that reports key identifiers, an
  identifier that is present and is in the translation table gives the base code; in
  every other case the raw key code is the base code.
\<close>

definition normalize :: "lib \<Rightarrow> event \<Rightarrow> keyspec" where
  "normalize lib event =
     (case (if webkit lib then Option.bind (keyIdentifier event) safariTranslator else None) of
        Some code \<Rightarrow> (code, ctrlKey event, shiftKey event, altKey event)
      | None \<Rightarrow> (keyCode event, ctrlKey event, shiftKey event, altKey event))"

text \<open>A keyspec as the array of a listener.\<close>

definition numeric :: "keyspec \<Rightarrow> pressed" where
  "numeric index = (Code (fst index), snd index)"

section \<open>Facts about the tables\<close>

lemma each_broken_None:
  "each_broken objs m k = None \<longleftrightarrow> k \<notin> fst ` set objs \<and> m k = None"
  by (induction objs arbitrary: m) auto

lemma each_broken_Some:
  "each_broken objs m k = Some t \<Longrightarrow>
     m k = Some t \<or> (\<exists>obj \<in> set objs. fst obj = k \<and> t = unmappable_text obj)"
proof (induction objs arbitrary: m)
  case Nil
  then show ?case by simp
next
  case (Cons obj objs)
  from Cons.prems have "each_broken objs (m(fst obj \<mapsto> unmappable_text obj)) k = Some t"
    by simp
  from Cons.IH [OF this] show ?case
    by (auto split: if_splits)
qed

lemma each_broken_other:
  "k \<notin> fst ` set objs \<Longrightarrow> each_broken objs m k = m k"
  by (induction objs arbitrary: m) auto

lemma each_broken_entry:
  "distinct (map fst objs) \<Longrightarrow> obj \<in> set objs \<Longrightarrow>
     each_broken objs m (fst obj) = Some (unmappable_text obj)"
proof (induction objs arbitrary: m)
  case Nil
  then show ?case by simp
next
  case (Cons first rest)
  show ?case
  proof (cases "obj = first")
    case True
    from Cons.prems(1) have "fst first \<notin> fst ` set rest"
      by simp
    then have "each_broken rest (m(fst first \<mapsto> unmappable_text first)) (fst first)
                 = Some (unmappable_text first)"
      by (simp add: each_broken_other)
    with True show ?thesis by simp
  next
    case False
    with Cons.prems have "distinct (map fst rest)" and "obj \<in> set rest"
      by simp_all
    then show ?thesis
      by (simp add: Cons.IH)
  qed
qed

lemma broken_keys:
  "broken k \<noteq> None \<longleftrightarrow> k \<in> set (map fst unmappable_list)"
  by (simp add: broken_def each_broken_None)

lemma unmappable_keys:
  "map fst unmappable_list =
    [265, 1033, 1037, 19, 275, 531, 1043, 20, 276, 532, 1044, 283, 1051, 288,
     1056, 289, 290, 1060, 1061, 1063, 304, 59, 315, 571, 1083, 1089, 1090,
     1092, 1093, 326, 1094, 1096, 1097, 335, 336, 1110, 1111, 608, 609, 610,
     611, 612, 613, 614, 615, 616, 617, 363, 365, 622, 112, 368, 624, 370, 371,
     1139, 116, 1141, 375, 120, 632, 121, 633, 122, 634, 123, 635, 144, 400,
     656, 1168, 145, 401, 657, 1169, 187, 443, 699, 1211, 189, 445, 701, 1213,
     1216, 219, 475, 731, 1243, 220, 476, 732, 1244, 1024]"
  by (simp add: unmappable_list_def)

lemma distinct_unmappable_keys: "distinct (map fst unmappable_list)"
  unfolding unmappable_keys by simp

lemma broken_entry:
  "obj \<in> set unmappable_list \<Longrightarrow> broken (fst obj) = Some (unmappable_text obj)"
  unfolding broken_def by (rule each_broken_entry [OF distinct_unmappable_keys])

lemma broken_Some_entry:
  assumes "broken k = Some t"
  shows "\<exists>obj \<in> set unmappable_list. fst obj = k \<and> t = unmappable_text obj"
  using each_broken_Some [of unmappable_list Map.empty k t] assms
  by (simp add: broken_def)

lemma broken_low_byte:
  assumes "broken k \<noteq> None"
  shows "k AND KEYMASK \<noteq> KEY_UMLAUT_2 \<and> (k AND KEYMASK = 0 \<longrightarrow> k = KEY_ALT)"
proof -
  from assms have "k \<in> set (map fst unmappable_list)"
    by (simp only: broken_keys)
  then show ?thesis
    unfolding unmappable_keys by auto
qed

lemma umlaut_entry:
  "(KEY_UMLAUT, [CHR 0xEF, CHR 0xBF, CHR 0xBD], ''Mac-Safari3'', None) \<in> set unmappable_list"
  by (simp add: unmappable_list_def)

lemma alt_a_entry:
  "(KEY_ALT + KEY_A, ''Alt+A'', ''Win-IE7'', Some ''address bar'') \<in> set unmappable_list"
  by (simp add: unmappable_list_def)

lemma broken_70: "broken 70 = None"
  using broken_keys [of 70] by (simp add: unmappable_keys)

lemma broken_827: "broken (KEY_CTRL + KEY_SHIFT + KEY_UMLAUT) = None"
  using broken_keys [of "KEY_CTRL + KEY_SHIFT + KEY_UMLAUT"] by (simp add: unmappable_keys)

lemma broken_CTRL: "broken KEY_CTRL = None"
  using broken_keys [of KEY_CTRL] by (simp add: unmappable_keys)

lemma broken_SHIFT: "broken KEY_SHIFT = None"
  using broken_keys [of KEY_SHIFT] by (simp add: unmappable_keys)

text \<open>Ctrl+F is the key specification 326.\<close>

lemma broken_CTRL_F:
  "broken 326 = Some ''Ctrl+F is unmappable in Win-IE7, WIn-Safari3 (find)''"
  by (simp add: broken_def unmappable_list_def unmappable_text_def)

lemma broken_UMLAUT:
  "broken KEY_UMLAUT = Some ([CHR 0xEF, CHR 0xBF, CHR 0xBD] @ '' is unmappable in Mac-Safari3'')"
  using broken_entry [OF umlaut_entry] by (simp add: unmappable_text_def)

lemma broken_ALT_A: "broken (KEY_ALT + KEY_A) = Some ''Alt+A is unmappable in Win-IE7 (address bar)''"
  using broken_entry [OF alt_a_entry] by (simp add: unmappable_text_def)

lemma alt_entry:
  "(KEY_ALT, ''Alt'', ''IE7'', Some ''activate menu'') \<in> set unmappable_list"
  by (simp add: unmappable_list_def)

lemma broken_ALT: "broken KEY_ALT = Some ''Alt is unmappable in IE7 (activate menu)''"
  using broken_entry [OF alt_entry] by (simp add: unmappable_text_def)

lemma safariTranslator_empty: "safariTranslator [] = None"
  by (simp add: safariTranslator_def)

lemma safariTranslator_AE: "safariTranslator ''U+00C6'' = Some 192"
  by (simp add: safariTranslator_def)

lemma safariTranslator_F: "safariTranslator ''U+0046'' = None"
  by (simp add: safariTranslator_def)

section \<open>Facts about the listeners\<close>

lemma table_entry_inherited_free:
  "ident \<notin> inherited \<Longrightarrow> table_entry inherited ident = map_option Code (safariTranslator ident)"
  by (simp add: table_entry_def split: option.splits)

lemma monitor_key_cancel_key: "monitor_key inherited lib event = cancel_key inherited lib event"
  by (simp add: monitor_key_def cancel_key_def)

lemma cancel_key_normalize:
  assumes "keyIdentifier event \<notin> Some ` inherited"
  shows "cancel_key inherited lib event = numeric (normalize lib event)"
proof (cases "keyIdentifier event")
  case None
  then show ?thesis
    by (simp add: cancel_key_def normalize_def translatable_def numeric_def)
next
  case (Some ident)
  with assms have "ident \<notin> inherited"
    by auto
  then have "table_entry inherited ident = map_option Code (safariTranslator ident)"
    by (rule table_entry_inherited_free)
  with Some show ?thesis
    by (cases "safariTranslator ident")
       (auto simp: cancel_key_def normalize_def translatable_def numeric_def
                   safariTranslator_empty)
qed

lemma cancel_key_cases:
  "(\<exists>m. fst (cancel_key inherited lib event) = Member m)
   \<or> cancel_key inherited lib event = numeric (normalize lib event)"
proof (cases "keyIdentifier event")
  case None
  then show ?thesis
    by (simp add: cancel_key_def normalize_def translatable_def numeric_def)
next
  case (Some ident)
  then show ?thesis
    by (cases "safariTranslator ident")
       (auto simp: cancel_key_def normalize_def translatable_def numeric_def table_entry_def
                   safariTranslator_empty)
qed

lemma keys_at_numeric: "keys_at keys (numeric index) = keys index"
  by (simp add: keys_at_def numeric_def)

lemma keys_at_Member: "fst key = Member m \<Longrightarrow> keys_at keys key = None"
  by (cases key) (simp add: keys_at_def)

lemma keys_at_cancel_key:
  "keys_at keys (cancel_key inherited lib event) = None
   \<or> keys_at keys (cancel_key inherited lib event) = keys (normalize lib event)"
  using cancel_key_cases [of inherited lib event]
  by (auto simp: keys_at_numeric keys_at_Member)

lemma keys_at_cancel_key_free:
  "keyIdentifier event \<notin> Some ` inherited \<Longrightarrow>
     keys_at keys (cancel_key inherited lib event) = keys (normalize lib event)"
  by (simp add: cancel_key_normalize keys_at_numeric)

lemma normalize_plain:
  "\<not> webkit lib \<Longrightarrow> normalize lib event = (keyCode event, ctrlKey event, shiftKey event, altKey event)"
  by (simp add: normalize_def)

lemma cancel_key_plain:
  "\<not> webkit lib \<Longrightarrow>
     cancel_key inherited lib event = (Code (keyCode event), ctrlKey event, shiftKey event, altKey event)"
  by (simp add: cancel_key_def)

lemma monitor_unmapped:
  "keys (normalize lib event) = None \<Longrightarrow> monitor inherited lib keys event = []"
  using keys_at_cancel_key [of keys inherited lib event]
  by (auto simp: monitor_def monitor_key_cancel_key)

lemma cancel_unmapped:
  "keys (normalize lib event) = None \<Longrightarrow> cancel inherited lib keys event = []"
  using keys_at_cancel_key [of keys inherited lib event]
  by (auto simp: cancel_def)

lemma monitor_mapped:
  "keys_at keys (monitor_key inherited lib event) = Some h \<Longrightarrow>
     monitor inherited lib keys event =
       (case h of
          Function f \<Rightarrow> [Call f (target event) event, StopEvent event]
        | ContextPair this f \<Rightarrow> [Call f this event, StopEvent event])"
  by (simp add: monitor_def split: handler.splits)

lemma cancel_mapped:
  "keys_at keys (cancel_key inherited lib event) = Some h \<Longrightarrow>
     cancel inherited lib keys event =
       [StopEvent event]
       @ (if msie lib \<and> 112 \<le> keyCode event \<and> keyCode event \<le> 123 then [ZeroKeyCode] else [])
       @ (if msie lib \<and> isAccessKey (keyCode event) (altKey event)
          then [SetStyle (''__altkeyhandler_'' @ number_text (keyCode event))] else [])"
  by (auto simp: cancel_def Let_def isAccessKey_def)

lemma key_of_CTRL_F_event:
  assumes "keyCode event = KEY_F" and "ctrlKey event" and "\<not> shiftKey event" and "\<not> altKey event"
    and "\<not> (webkit lib \<and> translatable inherited event)"
  shows "cancel_key inherited lib event = (Code KEY_F, True, False, False)"
    and "monitor_key inherited lib event = (Code KEY_F, True, False, False)"
  using assms by (auto simp: cancel_key_def monitor_key_def)

lemma cancel_CTRL_F:
  assumes "keyCode event = KEY_F" and "ctrlKey event" and "\<not> shiftKey event" and "\<not> altKey event"
    and "\<not> (webkit lib \<and> translatable inherited event)"
  shows "cancel inherited lib keys event
           = (if keys (KEY_F, True, False, False) = None then [] else [StopEvent event])"
  using assms key_of_CTRL_F_event(1) [OF assms]
  by (auto simp: cancel_def keys_at_def Let_def isAccessKey_def)

lemma monitor_CTRL_F:
  assumes "keyCode event = KEY_F" and "ctrlKey event" and "\<not> shiftKey event" and "\<not> altKey event"
    and "\<not> (webkit lib \<and> translatable inherited event)"
  shows "monitor inherited lib keys event
           = (case keys (KEY_F, True, False, False) of
                None \<Rightarrow> []
              | Some (Function f) \<Rightarrow> [Call f (target event) event, StopEvent event]
              | Some (ContextPair this f) \<Rightarrow> [Call f this event, StopEvent event])"
  using key_of_CTRL_F_event(2) [OF assms]
  by (simp add: monitor_def keys_at_def split: option.splits handler.splits)

section \<open>Facts about the index of a key specification\<close>

lemma index_of_decode:
  "fst (decode key) \<noteq> 0 \<Longrightarrow> index_of key = decode key"
  by (simp add: index_of_def solitary_def)

lemma index_of_70: "index_of 70 = (70, False, False, False)"
  by (simp add: index_of_def decode_def solitary_def)

lemma index_of_CTRL: "index_of KEY_CTRL = (KEYCTRL, False, False, False)"
  by (simp add: index_of_def decode_def solitary_def)

lemma index_of_SHIFT: "index_of KEY_SHIFT = (KEYSHIFT, False, False, False)"
  by (simp add: index_of_def decode_def solitary_def)

lemma index_of_ALT: "index_of KEY_ALT = (KEYALT, False, False, False)"
  by (simp add: index_of_def decode_def solitary_def)

lemma index_of_zero:
  assumes "key AND KEYMASK = 0" and "key \<notin> {KEY_CTRL, KEY_SHIFT, KEY_ALT}"
  shows "index_of key = (0, key AND KEY_CTRL \<noteq> 0, key AND KEY_SHIFT \<noteq> 0, key AND KEY_ALT \<noteq> 0)"
  using assms by (simp add: index_of_def decode_def solitary_def)

lemma index_of_CTRL_F: "index_of 326 = (KEY_F, True, False, False)"
  by (simp add: index_of_def decode_def solitary_def)

lemma index_of_UMLAUT_2: "index_of KEY_UMLAUT_2 = (KEY_UMLAUT_2, False, False, False)"
  by (simp add: index_of_def decode_def solitary_def)

lemma not_access_umlaut: "\<not> isAccessKey KEY_UMLAUT alt"
  by (simp add: isAccessKey_def)

lemma not_access_umlaut_2: "\<not> isAccessKey KEY_UMLAUT_2 alt"
  by (simp add: isAccessKey_def)

section \<open>Facts about registering\<close>

lemma register_refused:
  assumes "broken key = Some t" and "\<not> override"
  shows "register lib keys key meth override
           = (BrokenChordError t, keys, [Alert (broken_alert t)])"
  using assms by (simp add: register_def)

lemma register_conflict:
  assumes "keys (index_of key) = Some b" and "override \<or> broken key = None"
  shows "register lib keys key b2 override =
           (ConflictError (index_of key), keys, [Alert (mapped_alert (index_of key))])"
  using assms by (auto simp: register_def index_of_def Let_def)

lemma register_free:
  assumes "override \<or> broken key = None" and "keys (index_of key) = None"
  shows "register lib keys key meth override =
           (let index = index_of key;
                keys1 = keys(index \<mapsto> meth);
                keys2 = (if fst index = KEY_UMLAUT
                         then keys1((KEY_UMLAUT_2, snd index) \<mapsto> meth)
                         else keys1)
            in if msie lib \<and> isAccessKey (fst index) (snd (snd (snd index))) then
                 (if prototype lib then
                    (Registered, keys2,
                     [AppendAccessKeyDiv (''__altkeyhandler_'' @ number_text (fst index))
                        [char_of (fst index)]])
                  else (ScriptError, keys2, []))
               else (Registered, keys2, []))"
  using assms by (auto simp: register_def index_of_def Let_def)

lemma register_Registered:
  assumes "fst (register lib keys key meth override) = Registered"
  shows "(override \<or> broken key = None) \<and> keys (index_of key) = None"
  using assms by (auto simp: register_def index_of_def Let_def split: if_splits)

lemma register_Registered_keys:
  assumes "fst (register lib keys key meth override) = Registered"
  shows "fst (snd (register lib keys key meth override)) =
           (if fst (index_of key) = KEY_UMLAUT
            then (keys(index_of key \<mapsto> meth))((KEY_UMLAUT_2, snd (index_of key)) \<mapsto> meth)
            else keys(index_of key \<mapsto> meth))"
proof -
  from register_Registered [OF assms]
  have "override \<or> broken key = None" and "keys (index_of key) = None"
    by simp_all
  with register_free [of override key keys lib meth] show ?thesis
    by (simp add: Let_def)
qed

lemma register_plain:
  assumes "override \<or> broken key = None" and "keys (index_of key) = None"
    and "\<not> isAccessKey (fst (index_of key)) (snd (snd (snd (index_of key))))"
  shows "fst (register lib keys key meth override) = Registered"
  using register_free [of override key keys lib meth] assms by (simp add: Let_def)

lemma register_no_alert:
  assumes "override \<or> broken key = None" and "keys (index_of key) = None"
  shows "Alert t \<notin> set (snd (snd (register lib keys key meth override)))"
  using register_free [of override key keys lib meth] assms
  by (simp add: Let_def)

lemma register_70:
  "register \<lparr>prototype = True, webkit = False, msie = False\<rparr> Map.empty 70 (Function ''b'') False
     = (Registered, [(70, False, False, False) \<mapsto> Function ''b''], [])"
  by (simp add: register_def broken_70 decode_def solitary_def)

lemma register_solitary:
  assumes "override \<or> broken key = None" and "index_of key = (k, False, False, False)"
    and "k \<in> {KEYCTRL, KEYSHIFT, KEYALT}" and "keys (k, False, False, False) = None"
  shows "register lib keys key meth override
           = (Registered, keys((k, False, False, False) \<mapsto> meth), [])"
  using register_free [of override key keys lib meth] assms
  by (auto simp: Let_def isAccessKey_def)

lemma register_umlaut_override:
  assumes "decode key = (KEY_UMLAUT, ctrl, shift, alt)" and "keys (KEY_UMLAUT, ctrl, shift, alt) = None"
  shows "fst (register lib keys key meth True) = Registered"
proof -
  from assms(1) have index: "index_of key = (KEY_UMLAUT, ctrl, shift, alt)"
    by (simp add: index_of_decode)
  show ?thesis
    by (rule register_plain) (simp_all add: index assms(2) not_access_umlaut)
qed

lemma register_umlaut_2:
  assumes "decode key = (KEY_UMLAUT_2, ctrl, shift, alt)"
    and "keys (KEY_UMLAUT_2, ctrl, shift, alt) = None"
  shows "register lib keys key meth override
           = (Registered, keys((KEY_UMLAUT_2, ctrl, shift, alt) \<mapsto> meth), [])"
proof -
  from assms(1) have index: "index_of key = (KEY_UMLAUT_2, ctrl, shift, alt)"
    by (simp add: index_of_decode)
  from assms(1) have "key AND KEYMASK = KEY_UMLAUT_2"
    by (simp add: decode_def)
  with broken_low_byte [of key] have "broken key = None"
    by blast
  with register_free [of override key keys lib meth] index assms(2) show ?thesis
    by (simp add: Let_def not_access_umlaut_2)
qed

lemma register_827:
  "fst (register \<lparr>prototype = True, webkit = False, msie = False\<rparr> Map.empty
          (KEY_CTRL + KEY_SHIFT + KEY_UMLAUT) (Function ''cb'') False) = Registered"
proof -
  have "index_of (KEY_CTRL + KEY_SHIFT + KEY_UMLAUT) = (KEY_UMLAUT, True, True, False)"
    by (simp add: index_of_def decode_def solitary_def)
  then show ?thesis
    by (intro register_plain) (use broken_827 not_access_umlaut in simp_all)
qed

lemma register_CTRL_F_override:
  assumes "keys (KEY_F, True, False, False) = None"
  shows "register lib keys 326 meth True
           = (Registered, keys((KEY_F, True, False, False) \<mapsto> meth), [])"
  using register_free [of True 326 keys lib meth] assms index_of_CTRL_F
  by (simp add: Let_def isAccessKey_def)

lemma register_CTRL_F_refused:
  "register lib keys 326 meth False
     = (BrokenChordError ''Ctrl+F is unmappable in Win-IE7, WIn-Safari3 (find)'', keys,
        [Alert (broken_alert ''Ctrl+F is unmappable in Win-IE7, WIn-Safari3 (find)'')])"
  using register_refused [of 326 _ False lib keys meth] broken_CTRL_F by simp

section \<open>Facts about the directory\<close>

lemma myDiv_not_member: "''myDiv'' \<notin> object_members"
  by (simp add: object_members_def)

lemma handlerFor_plain:
  assumes "element \<notin> Element ` inherited"
  shows "handlerFor inherited handlers element =
           (Handler (keys_of handlers element),
            handlers(element \<mapsto> keys_of handlers element),
            (case handlers element of
               None \<Rightarrow> [Observe element ''keydown'', Observe element ''keyup'', MakeFocusable element]
             | Some keys \<Rightarrow> []))"
proof (cases "handlers element")
  case None
  with assms have "handlers_at inherited handlers element = None"
    by (cases element) (auto simp: handlers_at_def)
  with None show ?thesis
    by (simp add: handlerFor_def makeHandler_def keys_of_def)
next
  case (Some keys)
  then have "handlers_at inherited handlers element = Some (Handler keys)"
    by (simp add: handlers_at_def)
  with Some show ?thesis
    by (simp add: handlerFor_def keys_of_def fun_upd_idem)
qed

lemma Keyboard_register_ready:
  assumes "element \<notin> Element ` inherited"
  shows "Keyboard_register inherited lib True handlers element key meth override =
     (fst (register lib (keys_of handlers element) key meth override),
      handlers(element \<mapsto> fst (snd (register lib (keys_of handlers element) key meth override))),
      snd (snd (handlerFor inherited handlers element))
        @ snd (snd (register lib (keys_of handlers element) key meth override)))"
  by (simp add: Keyboard_register_def handlerFor_plain [OF assms] case_prod_unfold Let_def)

lemma keys_of_lookup: "keys_of handlers element index = lookup handlers element index"
  by (simp add: lookup_def)

section \<open>Ctrl+F from registration to the key events\<close>

text \<open>
  Claim C1, as the specification has it, fails: Ctrl+F (326) is in the list of unmappable
  keys, so \<^verbatim>\<open>Keyboard.register('myDiv', 326, cb)\<close> without the override shows the alert
  and maps nothing. The \<^verbatim>\<open>keydown\<close> and the \<^verbatim>\<open>keyup\<close> event with key code 70 and Ctrl
  then find no handler: \<open>cb\<close> is not called and no event is stopped.
\<close>

theorem ctrl_f_refused_counterexample:
  "Keyboard_register object_members \<lparr>prototype = True, webkit = False, msie = False\<rparr> True
      Map.empty (Element ''myDiv'') (KEY_CTRL + KEY_F) (Function ''cb'') False
     = (BrokenChordError ''Ctrl+F is unmappable in Win-IE7, WIn-Safari3 (find)'',
        [Element ''myDiv'' \<mapsto> Map.empty],
        [Observe (Element ''myDiv'') ''keydown'', Observe (Element ''myDiv'') ''keyup'',
         MakeFocusable (Element ''myDiv''),
         Alert (broken_alert ''Ctrl+F is unmappable in Win-IE7, WIn-Safari3 (find)'')])
   \<and> keydown object_members \<lparr>prototype = True, webkit = False, msie = False\<rparr>
        [Element ''myDiv'' \<mapsto> Map.empty] (Element ''myDiv'')
        \<lparr>keyCode = KEY_F, ctrlKey = True, shiftKey = False, altKey = False,
         keyIdentifier = None, target = ''myDiv''\<rparr>
     = ([Element ''myDiv'' \<mapsto> Map.empty], [])
   \<and> keyup object_members \<lparr>prototype = True, webkit = False, msie = False\<rparr>
        [Element ''myDiv'' \<mapsto> Map.empty] (Element ''myDiv'')
        \<lparr>keyCode = KEY_F, ctrlKey = True, shiftKey = False, altKey = False,
         keyIdentifier = None, target = ''myDiv''\<rparr>
     = ([Element ''myDiv'' \<mapsto> Map.empty], [])"
proof -
  have plain: "Element ''myDiv'' \<notin> Element ` object_members"
    using myDiv_not_member by auto
  have "keys_of Map.empty (Element ''myDiv'') = Map.empty"
    by (simp add: keys_of_def)
  then show ?thesis
    by (simp add: Keyboard_register_ready [OF plain] handlerFor_plain [OF plain]
                  register_CTRL_F_refused keydown_def keyup_def cancel_def monitor_def
                  cancel_key_plain monitor_key_cancel_key keys_at_def)
qed

text \<open>
  Claim C1, amended. Let the document be loaded, let Ctrl+F not be mapped on
  \<^verbatim>\<open>myDiv\<close> yet, and let \<^verbatim>\<open>myDiv\<close> not be a name that objects inherit. Registered with
  the override, Ctrl+F is mapped: the \<^verbatim>\<open>keydown\<close> event with key code 70 and Ctrl alone is
  stopped, and the \<^verbatim>\<open>keyup\<close> event calls \<open>cb\<close> once and is stopped. Registered without
  the override, the call is refused with the text of the list, and neither event calls
  \<open>cb\<close> or is stopped. On a platform with key identifiers the event's identifier is one
  for which the translation table gives nothing, as \<^verbatim>\<open>U+0046\<close> of the key F.
\<close>

theorem ctrl_f_end_to_end:
  assumes "keyCode event = KEY_F" and "ctrlKey event" and "\<not> shiftKey event" and "\<not> altKey event"
    and "\<not> (webkit lib \<and> translatable inherited event)"
    and "lookup handlers (Element ''myDiv'') (KEY_F, True, False, False) = None"
    and "''myDiv'' \<notin> inherited"
  shows "fst (Keyboard_register inherited lib True handlers (Element ''myDiv'') (KEY_CTRL + KEY_F)
                (Function cb) True)
           = Registered
         \<and> snd (keydown inherited lib
                  (fst (snd (Keyboard_register inherited lib True handlers (Element ''myDiv'')
                               (KEY_CTRL + KEY_F) (Function cb) True)))
                  (Element ''myDiv'') event)
           = [StopEvent event]
         \<and> snd (keyup inherited lib
                  (fst (snd (Keyboard_register inherited lib True handlers (Element ''myDiv'')
                               (KEY_CTRL + KEY_F) (Function cb) True)))
                  (Element ''myDiv'') event)
           = [Call cb (target event) event, StopEvent event]
         \<and> fst (Keyboard_register inherited lib True handlers (Element ''myDiv'') (KEY_CTRL + KEY_F)
                  (Function cb) False)
           = BrokenChordError ''Ctrl+F is unmappable in Win-IE7, WIn-Safari3 (find)''
         \<and> snd (keydown inherited lib
                  (fst (snd (Keyboard_register inherited lib True handlers (Element ''myDiv'')
                               (KEY_CTRL + KEY_F) (Function cb) False)))
                  (Element ''myDiv'') event)
           = []
         \<and> snd (keyup inherited lib
                  (fst (snd (Keyboard_register inherited lib True handlers (Element ''myDiv'')
                               (KEY_CTRL + KEY_F) (Function cb) False)))
                  (Element ''myDiv'') event)
           = []"
proof -
  have plain: "Element ''myDiv'' \<notin> Element ` inherited"
    using assms(7) by auto
  have free: "keys_of handlers (Element ''myDiv'') (KEY_F, True, False, False) = None"
    using assms(6) by (simp add: keys_of_lookup)
  note down = cancel_CTRL_F [OF assms(1-5)]
  note up = monitor_CTRL_F [OF assms(1-5)]
  have with_override:
    "Keyboard_register inherited lib True handlers (Element ''myDiv'') (KEY_CTRL + KEY_F)
        (Function cb) True
       = (Registered,
          handlers(Element ''myDiv'' \<mapsto>
            (keys_of handlers (Element ''myDiv''))((KEY_F, True, False, False) \<mapsto> Function cb)),
          snd (snd (handlerFor inherited handlers (Element ''myDiv''))))"
    using register_CTRL_F_override [of "keys_of handlers (Element ''myDiv'')" lib "Function cb"] free
    by (simp add: Keyboard_register_ready [OF plain])
  have without_override:
    "Keyboard_register inherited lib True handlers (Element ''myDiv'') (KEY_CTRL + KEY_F)
        (Function cb) False
       = (BrokenChordError ''Ctrl+F is unmappable in Win-IE7, WIn-Safari3 (find)'',
          handlers(Element ''myDiv'' \<mapsto> keys_of handlers (Element ''myDiv'')),
          snd (snd (handlerFor inherited handlers (Element ''myDiv'')))
            @ [Alert (broken_alert ''Ctrl+F is unmappable in Win-IE7, WIn-Safari3 (find)'')])"
    by (simp add: Keyboard_register_ready [OF plain] register_CTRL_F_refused)
  show ?thesis
    unfolding with_override without_override
    by (simp add: keydown_def keyup_def down up free)
qed

text \<open>
  The theorem at a WebKit browser with the members every object inherits, for the event
  of the key F, whose identifier is \<^verbatim>\<open>U+0046\<close>.
\<close>

theorem ctrl_f_end_to_end_witness:
  "fst (Keyboard_register object_members \<lparr>prototype = False, webkit = True, msie = False\<rparr> True
          Map.empty (Element ''myDiv'') (KEY_CTRL + KEY_F) (Function ''cb'') True)
     = Registered
   \<and> snd (keydown object_members \<lparr>prototype = False, webkit = True, msie = False\<rparr>
            (fst (snd (Keyboard_register object_members
                         \<lparr>prototype = False, webkit = True, msie = False\<rparr> True
                         Map.empty (Element ''myDiv'') (KEY_CTRL + KEY_F) (Function ''cb'') True)))
            (Element ''myDiv'')
            \<lparr>keyCode = KEY_F, ctrlKey = True, shiftKey = False, altKey = False,
             keyIdentifier = Some ''U+0046'', target = ''myDiv''\<rparr>)
     = [StopEvent \<lparr>keyCode = KEY_F, ctrlKey = True, shiftKey = False, altKey = False,
                   keyIdentifier = Some ''U+0046'', target = ''myDiv''\<rparr>]
   \<and> snd (keyup object_members \<lparr>prototype = False, webkit = True, msie = False\<rparr>
            (fst (snd (Keyboard_register object_members
                         \<lparr>prototype = False, webkit = True, msie = False\<rparr> True
                         Map.empty (Element ''myDiv'') (KEY_CTRL + KEY_F) (Function ''cb'') True)))
            (Element ''myDiv'')
            \<lparr>keyCode = KEY_F, ctrlKey = True, shiftKey = False, altKey = False,
             keyIdentifier = Some ''U+0046'', target = ''myDiv''\<rparr>)
     = [Call ''cb'' ''myDiv''
          \<lparr>keyCode = KEY_F, ctrlKey = True, shiftKey = False, altKey = False,
           keyIdentifier = Some ''U+0046'', target = ''myDiv''\<rparr>,
        StopEvent \<lparr>keyCode = KEY_F, ctrlKey = True, shiftKey = False, altKey = False,
                   keyIdentifier = Some ''U+0046'', target = ''myDiv''\<rparr>]
   \<and> fst (Keyboard_register object_members \<lparr>prototype = False, webkit = True, msie = False\<rparr> True
          Map.empty (Element ''myDiv'') (KEY_CTRL + KEY_F) (Function ''cb'') False)
     = BrokenChordError ''Ctrl+F is unmappable in Win-IE7, WIn-Safari3 (find)''
   \<and> snd (keyup object_members \<lparr>prototype = False, webkit = True, msie = False\<rparr>
            (fst (snd (Keyboard_register object_members
                         \<lparr>prototype = False, webkit = True, msie = False\<rparr> True
                         Map.empty (Element ''myDiv'') (KEY_CTRL + KEY_F) (Function ''cb'') False)))
            (Element ''myDiv'')
            \<lparr>keyCode = KEY_F, ctrlKey = True, shiftKey = False, altKey = False,
             keyIdentifier = Some ''U+0046'', target = ''myDiv''\<rparr>)
     = []"
proof -
  have "''U+0046'' \<notin> object_members"
    by (simp add: object_members_def)
  then have untranslated:
    "\<not> (webkit \<lparr>prototype = False, webkit = True, msie = False\<rparr>
        \<and> translatable object_members
             \<lparr>keyCode = KEY_F, ctrlKey = True, shiftKey = False, altKey = False,
              keyIdentifier = Some ''U+0046'', target = ''myDiv''\<rparr>)"
    by (simp add: translatable_def table_entry_def safariTranslator_F)
  have unmapped: "lookup Map.empty (Element ''myDiv'') (KEY_F, True, False, False) = None"
    by (simp add: lookup_def keys_of_def)
  from ctrl_f_end_to_end
         [of "\<lparr>keyCode = KEY_F, ctrlKey = True, shiftKey = False, altKey = False,
               keyIdentifier = Some ''U+0046'', target = ''myDiv''\<rparr>"
             "\<lparr>prototype = False, webkit = True, msie = False\<rparr>"
             object_members Map.empty "''cb''",
          OF _ _ _ _ untranslated unmapped myDiv_not_member]
  show ?thesis
    by simp
qed

section \<open>A second registration of a mapped key\<close>

text \<open>
  Claim C2. When the index of a key specification is already mapped to a handler \<open>b\<close>,
  registering the key again with any handler \<open>b2\<close> ends in the conflict, whatever the
  override flag is (without override the key must not be in the list of unmappable keys,
  or the call ends there first). The call leaves \<open>keys\<close> as it was, so \<open>b2\<close> is not
  stored and the index still has \<open>b\<close>.
\<close>

theorem register_bound_conflict:
  assumes "keys (index_of key) = Some b" and "override \<or> broken key = None"
  shows "register lib keys key b2 override =
           (ConflictError (index_of key), keys, [Alert (mapped_alert (index_of key))])
         \<and> fst (snd (register lib keys key b2 override)) (index_of key) = Some b"
  using assms by (simp add: register_conflict)

text \<open>
  The two calls one after the other: F is registered on empty \<open>keys\<close>, and registered
  again with another function.
\<close>

theorem register_bound_conflict_witness:
  "register \<lparr>prototype = True, webkit = False, msie = False\<rparr> Map.empty 70 (Function ''b'') False
     = (Registered, [(70, False, False, False) \<mapsto> Function ''b''], [])
   \<and> register \<lparr>prototype = True, webkit = False, msie = False\<rparr>
         [(70, False, False, False) \<mapsto> Function ''b''] 70 (Function ''b2'') False
     = (ConflictError (70, False, False, False), [(70, False, False, False) \<mapsto> Function ''b''],
        [Alert ''Key 70 (ctrl=false, shift=false, alt=false) already mapped!''])
   \<and> [(70 :: int, False, False, False) \<mapsto> Function ''b''] (70, False, False, False)
     = Some (Function ''b'')"
proof -
  have bound: "[(70, False, False, False) \<mapsto> Function ''b''] (index_of 70) = Some (Function ''b'')"
    by (simp add: index_of_70)
  have free: "False \<or> broken 70 = None"
    by (simp add: broken_70)
  have msg: "mapped_alert (70, False, False, False)
               = ''Key 70 (ctrl=false, shift=false, alt=false) already mapped!''"
    by code_simp
  from register_bound_conflict
         [of "[(70, False, False, False) \<mapsto> Function ''b'']" 70 "Function ''b''" False
             "\<lparr>prototype = True, webkit = False, msie = False\<rparr>" "Function ''b2''",
          OF bound free]
  show ?thesis
    by (simp add: register_70 index_of_70 msg)
qed

section \<open>Unmappable keys and the override\<close>

text \<open>
  Claim C3. A key of the list of unmappable keys is refused without the override, with
  the text of the list, and \<open>keys\<close> stay as they were; with the override the call succeeds
  and the index is mapped to the handler. The second half fails for Alt+A in Internet
  Explorer with jQuery: the handler is stored, and then the call ends in the error of
  \<^verbatim>\<open>Element.setStyle\<close>, with no access-key \<^verbatim>\<open>div\<close> appended. With Prototype the same
  call succeeds.
\<close>

theorem register_alt_a_override:
  "broken (KEY_ALT + KEY_A) = Some ''Alt+A is unmappable in Win-IE7 (address bar)''
   \<and> register \<lparr>prototype = False, webkit = False, msie = True\<rparr> Map.empty
        (KEY_ALT + KEY_A) (Function ''cb'') True
     = (ScriptError, [(KEY_A, False, False, True) \<mapsto> Function ''cb''], [])
   \<and> register \<lparr>prototype = True, webkit = False, msie = True\<rparr> Map.empty
        (KEY_ALT + KEY_A) (Function ''cb'') True
     = (Registered, [(KEY_A, False, False, True) \<mapsto> Function ''cb''],
        [AppendAccessKeyDiv ''__altkeyhandler_65'' ''A''])"
proof -
  have index: "index_of (KEY_ALT + KEY_A) = (KEY_A, False, False, True)"
    by (simp add: index_of_def decode_def solitary_def)
  have id: "''__altkeyhandler_'' @ number_text KEY_A = ''__altkeyhandler_65''"
    by code_simp
  have letter: "[char_of KEY_A] = ''A''"
    by code_simp
  from register_free
         [of True "KEY_ALT + KEY_A" Map.empty "\<lparr>prototype = False, webkit = False, msie = True\<rparr>"
             "Function ''cb''"]
       register_free
         [of True "KEY_ALT + KEY_A" Map.empty "\<lparr>prototype = True, webkit = False, msie = True\<rparr>"
             "Function ''cb''"]
       index id letter broken_ALT_A
  show ?thesis
    by (simp add: Let_def isAccessKey_def)
qed

text \<open>
  Without the override, every key of the list is refused with the text built from its
  entry, and \<open>keys\<close> stay as they were.
\<close>

theorem broken_key_refused:
  assumes "broken key = Some t"
  shows "register lib keys key meth False
           = (BrokenChordError t, keys, [Alert (broken_alert t)])
         \<and> (\<exists>obj \<in> set unmappable_list. fst obj = key \<and> t = unmappable_text obj)"
  using register_refused [OF assms, of False lib keys meth] broken_Some_entry [OF assms]
  by simp

theorem broken_key_refused_witness:
  "register \<lparr>prototype = False, webkit = False, msie = True\<rparr> Map.empty (KEY_ALT + KEY_A)
      (Function ''cb'') False
     = (BrokenChordError ''Alt+A is unmappable in Win-IE7 (address bar)'', Map.empty,
        [Alert (broken_alert ''Alt+A is unmappable in Win-IE7 (address bar)'')])"
  using broken_key_refused
          [OF broken_ALT_A, of "\<lparr>prototype = False, webkit = False, msie = True\<rparr>" Map.empty
              "Function ''cb''"]
  by simp

text \<open>
  With the override, a key whose index is not mapped yet is stored under its index,
  whether it is in the list or not. The call succeeds, except in Internet Explorer with
  jQuery when the index is Alt with a digit or a letter.
\<close>

theorem broken_key_override:
  assumes "keys (index_of key) = None"
  shows "fst (snd (register lib keys key meth True)) (index_of key) = Some meth
         \<and> fst (register lib keys key meth True)
           = (if msie lib \<and> \<not> prototype lib
                 \<and> isAccessKey (fst (index_of key)) (snd (snd (snd (index_of key))))
              then ScriptError else Registered)"
  using register_free [of True key keys lib meth] assms
  by (simp add: Let_def)

theorem broken_key_override_witness:
  "fst (snd (register \<lparr>prototype = False, webkit = False, msie = False\<rparr> Map.empty
               (KEY_ALT + KEY_A) (Function ''cb'') True)) (KEY_A, False, False, True)
     = Some (Function ''cb'')
   \<and> fst (register \<lparr>prototype = False, webkit = False, msie = False\<rparr> Map.empty
             (KEY_ALT + KEY_A) (Function ''cb'') True) = Registered"
proof -
  have index: "index_of (KEY_ALT + KEY_A) = (KEY_A, False, False, True)"
    by (simp add: index_of_def decode_def solitary_def)
  have "Map.empty (index_of (KEY_ALT + KEY_A)) = (None :: handler option)"
    by simp
  from broken_key_override
         [of Map.empty "KEY_ALT + KEY_A" "\<lparr>prototype = False, webkit = False, msie = False\<rparr>"
             "Function ''cb''", OF this]
       index
  show ?thesis
    by simp
qed

section \<open>The umlaut key and its second key code\<close>

text \<open>
  Claim C4. Let a key specification decode to the umlaut key (59) with any combination of
  Ctrl, Shift and Alt. One call of \<open>register\<close> that registers it maps both the keyspec
  with key code 59 and the keyspec with key code 186 and the same three flags to the
  handler given.
\<close>

theorem umlaut_alias:
  assumes "decode key = (KEY_UMLAUT, ctrl, shift, alt)"
    and "fst (register lib keys key meth override) = Registered"
  shows "fst (snd (register lib keys key meth override)) (KEY_UMLAUT, ctrl, shift, alt) = Some meth
         \<and> fst (snd (register lib keys key meth override)) (KEY_UMLAUT_2, ctrl, shift, alt) = Some meth"
proof -
  from assms(1) have "index_of key = (KEY_UMLAUT, ctrl, shift, alt)"
    by (simp add: index_of_decode)
  with register_Registered_keys [OF assms(2)] show ?thesis
    by simp
qed

text \<open>Every combination of the three modifiers has such a key specification.\<close>

lemma decode_umlaut:
  "decode (KEY_UMLAUT + (if ctrl then KEY_CTRL else 0) + (if shift then KEY_SHIFT else 0)
             + (if alt then KEY_ALT else 0)) = (KEY_UMLAUT, ctrl, shift, alt)"
  by (cases ctrl; cases shift; cases alt; simp add: decode_def)

theorem umlaut_alias_witness:
  "fst (snd (register \<lparr>prototype = True, webkit = False, msie = False\<rparr> Map.empty
              (KEY_CTRL + KEY_SHIFT + KEY_UMLAUT) (Function ''cb'') False))
       (KEY_UMLAUT, True, True, False) = Some (Function ''cb'')
   \<and> fst (snd (register \<lparr>prototype = True, webkit = False, msie = False\<rparr> Map.empty
              (KEY_CTRL + KEY_SHIFT + KEY_UMLAUT) (Function ''cb'') False))
       (KEY_UMLAUT_2, True, True, False) = Some (Function ''cb'')
   \<and> fst (snd (register \<lparr>prototype = False, webkit = False, msie = True\<rparr> Map.empty
              (KEY_ALT + KEY_UMLAUT) (ContextPair ''menu'' ''go'') True))
       (KEY_UMLAUT, False, False, True) = Some (ContextPair ''menu'' ''go'')
   \<and> fst (snd (register \<lparr>prototype = False, webkit = False, msie = True\<rparr> Map.empty
              (KEY_ALT + KEY_UMLAUT) (ContextPair ''menu'' ''go'') True))
       (KEY_UMLAUT_2, False, False, True) = Some (ContextPair ''menu'' ''go'')"
proof -
  have code: "decode (KEY_CTRL + KEY_SHIFT + KEY_UMLAUT) = (KEY_UMLAUT, True, True, False)"
    by (simp add: decode_def)
  have index: "index_of (KEY_CTRL + KEY_SHIFT + KEY_UMLAUT) = (KEY_UMLAUT, True, True, False)"
    using code by (simp add: index_of_decode)
  have ok: "fst (register \<lparr>prototype = True, webkit = False, msie = False\<rparr> Map.empty
                   (KEY_CTRL + KEY_SHIFT + KEY_UMLAUT) (Function ''cb'') False) = Registered"
    by (rule register_plain) (use broken_827 index not_access_umlaut in simp_all)
  have code': "decode (KEY_ALT + KEY_UMLAUT) = (KEY_UMLAUT, False, False, True)"
    by (simp add: decode_def)
  have ok': "fst (register \<lparr>prototype = False, webkit = False, msie = True\<rparr> Map.empty
                    (KEY_ALT + KEY_UMLAUT) (ContextPair ''menu'' ''go'') True) = Registered"
    by (rule register_umlaut_override [OF code']) simp
  from umlaut_alias [OF code ok] umlaut_alias [OF code' ok'] show ?thesis
    by simp
qed

section \<open>The second key code in a key specification\<close>

text \<open>
  Claim C5, as the specification has it, fails. The list of unmappable keys has the umlaut
  key under 59 only, so 59 is refused without the override while 186 is registered; and a
  handler registered under 186 is mapped under 186 alone, so an event with key code 59
  does not find it.
\<close>

theorem secondary_code_counterexample:
  "register \<lparr>prototype = True, webkit = False, msie = False\<rparr> Map.empty KEY_UMLAUT
      (Function ''cb'') False
     = (BrokenChordError ([CHR 0xEF, CHR 0xBF, CHR 0xBD] @ '' is unmappable in Mac-Safari3''),
        Map.empty,
        [Alert (broken_alert ([CHR 0xEF, CHR 0xBF, CHR 0xBD] @ '' is unmappable in Mac-Safari3''))])
   \<and> register \<lparr>prototype = True, webkit = False, msie = False\<rparr> Map.empty KEY_UMLAUT_2
        (Function ''cb'') False
     = (Registered, [(KEY_UMLAUT_2, False, False, False) \<mapsto> Function ''cb''], [])
   \<and> monitor object_members \<lparr>prototype = True, webkit = False, msie = False\<rparr>
        [(KEY_UMLAUT_2, False, False, False) \<mapsto> Function ''cb'']
        \<lparr>keyCode = KEY_UMLAUT, ctrlKey = False, shiftKey = False, altKey = False,
         keyIdentifier = None, target = ''myDiv''\<rparr>
     = []"
proof -
  have refused:
    "register \<lparr>prototype = True, webkit = False, msie = False\<rparr> Map.empty KEY_UMLAUT
        (Function ''cb'') False
       = (BrokenChordError ([CHR 0xEF, CHR 0xBF, CHR 0xBD] @ '' is unmappable in Mac-Safari3''),
          Map.empty,
          [Alert (broken_alert ([CHR 0xEF, CHR 0xBF, CHR 0xBD] @ '' is unmappable in Mac-Safari3''))])"
    by (rule register_refused [OF broken_UMLAUT]) simp
  have "decode KEY_UMLAUT_2 = (KEY_UMLAUT_2, False, False, False)"
    by (simp add: decode_def)
  then have registered:
    "register \<lparr>prototype = True, webkit = False, msie = False\<rparr> Map.empty KEY_UMLAUT_2
        (Function ''cb'') False
       = (Registered, [(KEY_UMLAUT_2, False, False, False) \<mapsto> Function ''cb''], [])"
    by (rule register_umlaut_2) simp
  have unmatched:
    "monitor object_members \<lparr>prototype = True, webkit = False, msie = False\<rparr>
        [(KEY_UMLAUT_2, False, False, False) \<mapsto> Function ''cb'']
        \<lparr>keyCode = KEY_UMLAUT, ctrlKey = False, shiftKey = False, altKey = False,
         keyIdentifier = None, target = ''myDiv''\<rparr>
       = []"
    by (rule monitor_unmapped) (simp add: normalize_plain)
  from refused registered unmatched show ?thesis
    by (intro conjI)
qed

text \<open>
  Claim C5, amended. The second key code (186) stands for the first (59) in one direction
  only. A registration of a key specification with key code 59 maps the keyspec with key
  code 186 and the same flags to the same handler, so events with either key code find
  it. A key specification with key code 186 is never in the list of unmappable keys, so
  it is never refused as unmappable, and it is mapped under key code 186 alone.
\<close>

theorem secondary_code_alias:
  "(key AND KEYMASK = KEY_UMLAUT_2 \<longrightarrow> broken key = None)
   \<and> (decode key = (KEY_UMLAUT_2, ctrl, shift, alt) \<and> keys (KEY_UMLAUT_2, ctrl, shift, alt) = None \<longrightarrow>
        register lib keys key meth override
          = (Registered, keys((KEY_UMLAUT_2, ctrl, shift, alt) \<mapsto> meth), []))
   \<and> (decode key = (KEY_UMLAUT, ctrl, shift, alt)
        \<and> fst (register lib keys key meth override) = Registered \<longrightarrow>
        fst (snd (register lib keys key meth override)) (KEY_UMLAUT, ctrl, shift, alt) = Some meth
        \<and> fst (snd (register lib keys key meth override)) (KEY_UMLAUT_2, ctrl, shift, alt) = Some meth)"
proof (intro conjI impI)
  assume "key AND KEYMASK = KEY_UMLAUT_2"
  with broken_low_byte [of key] show "broken key = None"
    by blast
next
  assume "decode key = (KEY_UMLAUT_2, ctrl, shift, alt) \<and> keys (KEY_UMLAUT_2, ctrl, shift, alt) = None"
  then show "register lib keys key meth override
               = (Registered, keys((KEY_UMLAUT_2, ctrl, shift, alt) \<mapsto> meth), [])"
    by (simp add: register_umlaut_2)
next
  assume both: "decode key = (KEY_UMLAUT, ctrl, shift, alt)
                  \<and> fst (register lib keys key meth override) = Registered"
  then have index: "index_of key = (KEY_UMLAUT, ctrl, shift, alt)"
    by (simp add: index_of_decode)
  from both have "fst (register lib keys key meth override) = Registered"
    by simp
  from register_Registered_keys [OF this] index
  show "fst (snd (register lib keys key meth override)) (KEY_UMLAUT, ctrl, shift, alt) = Some meth"
    and "fst (snd (register lib keys key meth override)) (KEY_UMLAUT_2, ctrl, shift, alt) = Some meth"
    by simp_all
qed

theorem secondary_code_alias_witness:
  "broken (KEY_CTRL + KEY_UMLAUT_2) = None
   \<and> register \<lparr>prototype = True, webkit = False, msie = False\<rparr> Map.empty
        (KEY_CTRL + KEY_UMLAUT_2) (Function ''cb'') False
     = (Registered, [(KEY_UMLAUT_2, True, False, False) \<mapsto> Function ''cb''], [])
   \<and> fst (snd (register \<lparr>prototype = True, webkit = False, msie = False\<rparr> Map.empty
                (KEY_CTRL + KEY_SHIFT + KEY_UMLAUT) (Function ''cb'') False))
        (KEY_UMLAUT, True, True, False) = Some (Function ''cb'')
   \<and> fst (snd (register \<lparr>prototype = True, webkit = False, msie = False\<rparr> Map.empty
                (KEY_CTRL + KEY_SHIFT + KEY_UMLAUT) (Function ''cb'') False))
        (KEY_UMLAUT_2, True, True, False) = Some (Function ''cb'')"
proof -
  have low: "(KEY_CTRL + KEY_UMLAUT_2) AND KEYMASK = KEY_UMLAUT_2"
    by simp
  have second: "decode (KEY_CTRL + KEY_UMLAUT_2) = (KEY_UMLAUT_2, True, False, False)"
    by (simp add: decode_def)
  have first: "decode (KEY_CTRL + KEY_SHIFT + KEY_UMLAUT) = (KEY_UMLAUT, True, True, False)"
    by (simp add: decode_def)
  from secondary_code_alias
         [where key = "KEY_CTRL + KEY_UMLAUT_2" and ctrl = True and shift = False and alt = False
            and keys = Map.empty and lib = "\<lparr>prototype = True, webkit = False, msie = False\<rparr>"
            and meth = "Function ''cb''" and override = False]
       low second
  have "broken (KEY_CTRL + KEY_UMLAUT_2) = None
        \<and> register \<lparr>prototype = True, webkit = False, msie = False\<rparr> Map.empty
             (KEY_CTRL + KEY_UMLAUT_2) (Function ''cb'') False
          = (Registered, [(KEY_UMLAUT_2, True, False, False) \<mapsto> Function ''cb''], [])"
    by simp
  moreover
  from secondary_code_alias
         [where key = "KEY_CTRL + KEY_SHIFT + KEY_UMLAUT" and ctrl = True and shift = True
            and alt = False and keys = Map.empty
            and lib = "\<lparr>prototype = True, webkit = False, msie = False\<rparr>"
            and meth = "Function ''cb''" and override = False]
       first register_827
  have "fst (snd (register \<lparr>prototype = True, webkit = False, msie = False\<rparr> Map.empty
                    (KEY_CTRL + KEY_SHIFT + KEY_UMLAUT) (Function ''cb'') False))
            (KEY_UMLAUT, True, True, False) = Some (Function ''cb'')
        \<and> fst (snd (register \<lparr>prototype = True, webkit = False, msie = False\<rparr> Map.empty
                    (KEY_CTRL + KEY_SHIFT + KEY_UMLAUT) (Function ''cb'') False))
            (KEY_UMLAUT_2, True, True, False) = Some (Function ''cb'')"
    by simp
  ultimately show ?thesis
    by simp
qed

section \<open>The keyspec of an event\<close>

text \<open>
  Claim C6. The keyspec of an event is always one of two tuples. On a platform that reports
  key identifiers (\<open>webkit\<close>), an identifier that the translation table holds gives the
  translated key code as base code; in every other case the base code is the raw
  \<open>keyCode\<close>. The modifier flags are the event's. The \<^verbatim>\<open>keydown\<close> listener and the
  \<^verbatim>\<open>keyup\<close> listener compute the same keyspec, the \<open>normalize\<close> of the specification.
  The event's identifier, when it has one, is a key identifier: it is not a name that
  objects inherit, such as \<^verbatim>\<open>constructor\<close>.
\<close>

theorem key_normalization:
  "(webkit lib \<and> keyIdentifier event = Some ident \<and> safariTranslator ident = Some code
      \<longrightarrow> cancel_key inherited lib event
            = (Code code, ctrlKey event, shiftKey event, altKey event))
   \<and> (keyIdentifier event \<notin> Some ` inherited
        \<and> \<not> (webkit lib \<and> keyIdentifier event \<in> Some ` dom safariTranslator)
      \<longrightarrow> cancel_key inherited lib event
            = (Code (keyCode event), ctrlKey event, shiftKey event, altKey event))
   \<and> monitor_key inherited lib event = cancel_key inherited lib event
   \<and> (keyIdentifier event \<notin> Some ` inherited
      \<longrightarrow> cancel_key inherited lib event = numeric (normalize lib event))"
proof -
  have same: "cancel_key inherited lib event = numeric (normalize lib event)"
    if "keyIdentifier event \<notin> Some ` inherited"
    using that by (rule cancel_key_normalize)
  have hit: "cancel_key inherited lib event = (Code code, ctrlKey event, shiftKey event, altKey event)"
    if "webkit lib" and "keyIdentifier event = Some ident" and "safariTranslator ident = Some code"
  proof -
    from that(3) have "ident \<noteq> []"
      using safariTranslator_empty by auto
    with that show ?thesis
      by (simp add: cancel_key_def translatable_def table_entry_def)
  qed
  have miss: "normalize lib event = (keyCode event, ctrlKey event, shiftKey event, altKey event)"
    if "\<not> (webkit lib \<and> keyIdentifier event \<in> Some ` dom safariTranslator)"
  proof (cases "webkit lib")
    case False
    then show ?thesis by (simp add: normalize_def)
  next
    case True
    with that have "keyIdentifier event \<notin> Some ` dom safariTranslator" by simp
    then have "Option.bind (keyIdentifier event) safariTranslator = None"
      by (cases "keyIdentifier event") (auto simp: dom_def)
    then show ?thesis by (simp add: normalize_def)
  qed
  from same hit miss show ?thesis
    by (simp add: monitor_key_cancel_key numeric_def)
qed

theorem key_normalization_witness:
  "cancel_key object_members \<lparr>prototype = True, webkit = True, msie = False\<rparr>
      \<lparr>keyCode = 222, ctrlKey = False, shiftKey = True, altKey = False,
       keyIdentifier = Some ''U+00C6'', target = ''myDiv''\<rparr> = (Code 192, False, True, False)
   \<and> monitor_key object_members \<lparr>prototype = True, webkit = True, msie = False\<rparr>
      \<lparr>keyCode = 222, ctrlKey = False, shiftKey = True, altKey = False,
       keyIdentifier = Some ''U+00C6'', target = ''myDiv''\<rparr> = (Code 192, False, True, False)
   \<and> cancel_key object_members \<lparr>prototype = True, webkit = False, msie = False\<rparr>
      \<lparr>keyCode = 222, ctrlKey = False, shiftKey = True, altKey = False,
       keyIdentifier = Some ''U+00C6'', target = ''myDiv''\<rparr> = (Code 222, False, True, False)"
proof -
  have "''U+00C6'' \<notin> object_members"
    by (simp add: object_members_def)
  then have key_identifier:
    "keyIdentifier \<lparr>keyCode = 222, ctrlKey = False, shiftKey = True, altKey = False,
                    keyIdentifier = Some ''U+00C6'', target = ''myDiv''\<rparr>
       \<notin> Some ` object_members"
    by auto
  from key_normalization
         [of "\<lparr>prototype = True, webkit = True, msie = False\<rparr>"
             "\<lparr>keyCode = 222, ctrlKey = False, shiftKey = True, altKey = False,
               keyIdentifier = Some ''U+00C6'', target = ''myDiv''\<rparr>"
             "''U+00C6''" 192 object_members]
       key_normalization
         [of "\<lparr>prototype = True, webkit = False, msie = False\<rparr>"
             "\<lparr>keyCode = 222, ctrlKey = False, shiftKey = True, altKey = False,
               keyIdentifier = Some ''U+00C6'', target = ''myDiv''\<rparr>"
             "''U+00C6''" 192 object_members]
       key_identifier
  show ?thesis
    by (simp add: safariTranslator_AE)
qed

section \<open>Events of unmapped keys\<close>

text \<open>
  Claim C7. When the keyspec of an event is not mapped, the \<^verbatim>\<open>keyup\<close> listener does
  nothing: no function is called, the event is not stopped, and the handlers with their
  \<open>keys\<close> are what they were. The same holds for the \<^verbatim>\<open>keydown\<close> listener.
\<close>

theorem unmapped_event_no_action:
  assumes "keys (normalize lib event) = None"
  shows "monitor inherited lib keys event = [] \<and> cancel inherited lib keys event = []
         \<and> (handlers element = Some keys \<longrightarrow>
              keyup inherited lib handlers element event = (handlers, [])
              \<and> keydown inherited lib handlers element event = (handlers, []))"
  using assms by (simp add: monitor_unmapped cancel_unmapped keyup_def keydown_def)

theorem unmapped_event_no_action_witness:
  "monitor object_members \<lparr>prototype = False, webkit = False, msie = True\<rparr>
      [(70, True, False, False) \<mapsto> Function ''find'']
      \<lparr>keyCode = 71, ctrlKey = True, shiftKey = False, altKey = False,
       keyIdentifier = None, target = ''myDiv''\<rparr> = []
   \<and> cancel object_members \<lparr>prototype = False, webkit = False, msie = True\<rparr>
      [(70, True, False, False) \<mapsto> Function ''find'']
      \<lparr>keyCode = 71, ctrlKey = True, shiftKey = False, altKey = False,
       keyIdentifier = None, target = ''myDiv''\<rparr> = []
   \<and> keyup object_members \<lparr>prototype = False, webkit = False, msie = True\<rparr>
      [Element ''myDiv'' \<mapsto> [(70, True, False, False) \<mapsto> Function ''find'']] (Element ''myDiv'')
      \<lparr>keyCode = 71, ctrlKey = True, shiftKey = False, altKey = False,
       keyIdentifier = None, target = ''myDiv''\<rparr>
     = ([Element ''myDiv'' \<mapsto> [(70, True, False, False) \<mapsto> Function ''find'']], [])"
proof -
  have unmapped:
    "[(70, True, False, False) \<mapsto> Function ''find'']
       (normalize \<lparr>prototype = False, webkit = False, msie = True\<rparr>
          \<lparr>keyCode = 71, ctrlKey = True, shiftKey = False, altKey = False,
           keyIdentifier = None, target = ''myDiv''\<rparr>) = None"
    by (simp add: normalize_plain)
  from unmapped_event_no_action
         [of "[(70, True, False, False) \<mapsto> Function ''find'']"
             "\<lparr>prototype = False, webkit = False, msie = True\<rparr>"
             "\<lparr>keyCode = 71, ctrlKey = True, shiftKey = False, altKey = False,
               keyIdentifier = None, target = ''myDiv''\<rparr>"
             object_members
             "[Element ''myDiv'' \<mapsto> [(70, True, False, False) \<mapsto> Function ''find'']]"
             "Element ''myDiv''",
          OF unmapped]
  show ?thesis by simp
qed

section \<open>Events of mapped keys\<close>

text \<open>
  Claim C8. When the keyspec of a \<^verbatim>\<open>keyup\<close> event is mapped, the listener calls the
  mapped function once, with the event as argument: in the context given with it when the
  handler is a pair of context and function, in the context of the event's target when it
  is a function alone. Stopping the event (its default action and its propagation) comes
  after the call, and nothing else happens. The keyspec is the one the listener
  computes; it is the \<open>normalize\<close> of the specification when the event's identifier is
  not a name that objects inherit.
\<close>

theorem keyup_calls_handler:
  "(keys_at keys (monitor_key inherited lib event) = Some h \<longrightarrow>
      monitor inherited lib keys event =
        (case h of
           Function f \<Rightarrow> [Call f (target event) event, StopEvent event]
         | ContextPair this f \<Rightarrow> [Call f this event, StopEvent event]))
   \<and> (keyIdentifier event \<notin> Some ` inherited \<and> keys (normalize lib event) = Some h \<longrightarrow>
      monitor inherited lib keys event =
        (case h of
           Function f \<Rightarrow> [Call f (target event) event, StopEvent event]
         | ContextPair this f \<Rightarrow> [Call f this event, StopEvent event]))"
proof (intro conjI impI)
  assume "keys_at keys (monitor_key inherited lib event) = Some h"
  then show "monitor inherited lib keys event =
               (case h of
                  Function f \<Rightarrow> [Call f (target event) event, StopEvent event]
                | ContextPair this f \<Rightarrow> [Call f this event, StopEvent event])"
    by (rule monitor_mapped)
next
  assume "keyIdentifier event \<notin> Some ` inherited \<and> keys (normalize lib event) = Some h"
  then have "keys_at keys (monitor_key inherited lib event) = Some h"
    by (simp add: monitor_key_cancel_key keys_at_cancel_key_free)
  then show "monitor inherited lib keys event =
               (case h of
                  Function f \<Rightarrow> [Call f (target event) event, StopEvent event]
                | ContextPair this f \<Rightarrow> [Call f this event, StopEvent event])"
    by (rule monitor_mapped)
qed

theorem keyup_calls_handler_witness:
  "monitor object_members \<lparr>prototype = True, webkit = False, msie = False\<rparr>
      [(115, False, False, False) \<mapsto> ContextPair ''menu'' ''dropDown'']
      \<lparr>keyCode = 115, ctrlKey = False, shiftKey = False, altKey = False,
       keyIdentifier = None, target = ''myDiv''\<rparr>
    = [Call ''dropDown'' ''menu''
         \<lparr>keyCode = 115, ctrlKey = False, shiftKey = False, altKey = False,
          keyIdentifier = None, target = ''myDiv''\<rparr>,
       StopEvent
         \<lparr>keyCode = 115, ctrlKey = False, shiftKey = False, altKey = False,
          keyIdentifier = None, target = ''myDiv''\<rparr>]
   \<and> monitor object_members \<lparr>prototype = False, webkit = True, msie = False\<rparr>
      [(192, False, False, False) \<mapsto> Function ''dropDown'']
      \<lparr>keyCode = 222, ctrlKey = False, shiftKey = False, altKey = False,
       keyIdentifier = Some ''U+00C6'', target = ''myDiv''\<rparr>
    = [Call ''dropDown'' ''myDiv''
         \<lparr>keyCode = 222, ctrlKey = False, shiftKey = False, altKey = False,
          keyIdentifier = Some ''U+00C6'', target = ''myDiv''\<rparr>,
       StopEvent
         \<lparr>keyCode = 222, ctrlKey = False, shiftKey = False, altKey = False,
          keyIdentifier = Some ''U+00C6'', target = ''myDiv''\<rparr>]"
proof -
  have first:
    "keys_at [(115, False, False, False) \<mapsto> ContextPair ''menu'' ''dropDown'']
       (monitor_key object_members \<lparr>prototype = True, webkit = False, msie = False\<rparr>
          \<lparr>keyCode = 115, ctrlKey = False, shiftKey = False, altKey = False,
           keyIdentifier = None, target = ''myDiv''\<rparr>)
       = Some (ContextPair ''menu'' ''dropDown'')"
    by (simp add: monitor_key_cancel_key cancel_key_plain keys_at_def)
  have "''U+00C6'' \<notin> object_members"
    by (simp add: object_members_def)
  then have second:
    "keyIdentifier \<lparr>keyCode = 222, ctrlKey = False, shiftKey = False, altKey = False,
                    keyIdentifier = Some ''U+00C6'', target = ''myDiv''\<rparr>
       \<notin> Some ` object_members
     \<and> [(192, False, False, False) \<mapsto> Function ''dropDown'']
         (normalize \<lparr>prototype = False, webkit = True, msie = False\<rparr>
            \<lparr>keyCode = 222, ctrlKey = False, shiftKey = False, altKey = False,
             keyIdentifier = Some ''U+00C6'', target = ''myDiv''\<rparr>)
       = Some (Function ''dropDown'')"
    by (auto simp: normalize_def safariTranslator_AE)
  from keyup_calls_handler
         [of "[(115, False, False, False) \<mapsto> ContextPair ''menu'' ''dropDown'']" object_members
             "\<lparr>prototype = True, webkit = False, msie = False\<rparr>"
             "\<lparr>keyCode = 115, ctrlKey = False, shiftKey = False, altKey = False,
               keyIdentifier = None, target = ''myDiv''\<rparr>"
             "ContextPair ''menu'' ''dropDown''"]
       first
       keyup_calls_handler
         [of "[(192, False, False, False) \<mapsto> Function ''dropDown'']" object_members
             "\<lparr>prototype = False, webkit = True, msie = False\<rparr>"
             "\<lparr>keyCode = 222, ctrlKey = False, shiftKey = False, altKey = False,
               keyIdentifier = Some ''U+00C6'', target = ''myDiv''\<rparr>"
             "Function ''dropDown''"]
       second
  show ?thesis
    by simp
qed

section \<open>The alerts of register\<close>

text \<open>
  Claim C9, as the specification has it, fails: \<open>register\<close> itself calls \<^verbatim>\<open>alert\<close>, for
  an unmappable key and for a key that is mapped already.
\<close>

theorem register_alerts_counterexample:
  "snd (snd (register \<lparr>prototype = True, webkit = False, msie = False\<rparr> Map.empty
               (KEY_CTRL + KEY_F) (Function ''cb'') False))
     = [Alert (''Ctrl+F is unmappable in Win-IE7, WIn-Safari3 (find).'' @ [CHR 0x0A]
               @ ''This key mapping has been ignored.'' @ [CHR 0x0A]
               @ ''If you really want to map this key, set the override parameter to true.'')]
   \<and> snd (snd (register \<lparr>prototype = True, webkit = False, msie = False\<rparr>
                 [(KEY_F, False, False, False) \<mapsto> Function ''b''] KEY_F (Function ''cb'') False))
     = [Alert ''Key 70 (ctrl=false, shift=false, alt=false) already mapped!'']"
proof -
  have msg: "mapped_alert (70, False, False, False)
               = ''Key 70 (ctrl=false, shift=false, alt=false) already mapped!''"
    by code_simp
  have "register \<lparr>prototype = True, webkit = False, msie = False\<rparr>
          [(KEY_F, False, False, False) \<mapsto> Function ''b''] KEY_F (Function ''cb'') False
        = (ConflictError (index_of KEY_F), [(KEY_F, False, False, False) \<mapsto> Function ''b''],
           [Alert (mapped_alert (index_of KEY_F))])"
    by (rule register_conflict [where b = "Function ''b''"]) (simp_all add: index_of_70 broken_70)
  then show ?thesis
    by (simp add: register_CTRL_F_refused broken_alert_def index_of_70 msg)
qed

text \<open>
  Claim C9, amended. \<open>register\<close> warns the user itself. When it refuses an unmappable
  key it shows one alert, the text of the list followed by the notice that the mapping
  was ignored and how to override; when the index is mapped already it shows one alert
  naming the key code and the three flags. In both cases \<open>keys\<close> stay as they were. A
  call that is not refused shows no alert.
\<close>

theorem register_alerts:
  assumes "register lib keys key meth override = (result, keys', effects)"
  shows "(\<forall>t. result = BrokenChordError t \<longrightarrow>
            broken key = Some t \<and> \<not> override \<and> keys' = keys \<and> effects = [Alert (broken_alert t)])
         \<and> (\<forall>index. result = ConflictError index \<longrightarrow>
            index = index_of key \<and> keys' = keys \<and> effects = [Alert (mapped_alert index)])
         \<and> (result = Registered \<or> result = ScriptError \<longrightarrow> (\<forall>t. Alert t \<notin> set effects))
         \<and> result \<noteq> Deferred"
proof (cases "broken key \<noteq> None \<and> \<not> override")
  case True
  then obtain t where refused: "broken key = Some t" "\<not> override"
    by auto
  with register_refused [of key t override lib keys meth] assms
  have "result = BrokenChordError t" and "keys' = keys" and "effects = [Alert (broken_alert t)]"
    by simp_all
  with refused show ?thesis
    by simp
next
  case free: False
  show ?thesis
  proof (cases "keys (index_of key)")
    case (Some b)
    with register_conflict [of keys key b override lib meth] free assms
    have "result = ConflictError (index_of key)" and "keys' = keys"
      and "effects = [Alert (mapped_alert (index_of key))]"
      by auto
    then show ?thesis
      by simp
  next
    case None
    with free have a: "override \<or> broken key = None" and b: "keys (index_of key) = None"
      by auto
    from register_free [of override key keys lib meth] a b assms
    have "result = Registered \<or> result = ScriptError"
      by (auto simp: Let_def split: if_splits)
    moreover from register_no_alert [of override key keys _ lib meth] a b assms
    have "\<forall>t. Alert t \<notin> set effects"
      by simp
    ultimately show ?thesis
      by auto
  qed
qed

theorem register_alerts_witness:
  "broken (KEY_CTRL + KEY_F) = Some ''Ctrl+F is unmappable in Win-IE7, WIn-Safari3 (find)''
   \<and> snd (snd (register \<lparr>prototype = True, webkit = False, msie = False\<rparr> Map.empty
                 (KEY_CTRL + KEY_F) (Function ''cb'') False))
     = [Alert (broken_alert ''Ctrl+F is unmappable in Win-IE7, WIn-Safari3 (find)'')]
   \<and> snd (snd (register \<lparr>prototype = True, webkit = False, msie = False\<rparr>
                 [(KEY_F, False, False, False) \<mapsto> Function ''b''] KEY_F (Function ''cb'') False))
     = [Alert (mapped_alert (KEY_F, False, False, False))]
   \<and> Alert ''Key 70 (ctrl=false, shift=false, alt=false) already mapped!''
       \<notin> set (snd (snd (register \<lparr>prototype = True, webkit = False, msie = False\<rparr> Map.empty
                            KEY_F (Function ''b'') False)))"
proof -
  have refused:
    "register \<lparr>prototype = True, webkit = False, msie = False\<rparr> Map.empty
        (KEY_CTRL + KEY_F) (Function ''cb'') False
       = (BrokenChordError ''Ctrl+F is unmappable in Win-IE7, WIn-Safari3 (find)'', Map.empty,
          snd (snd (register \<lparr>prototype = True, webkit = False, msie = False\<rparr> Map.empty
                      (KEY_CTRL + KEY_F) (Function ''cb'') False)))"
    by (simp add: register_CTRL_F_refused)
  have conflict:
    "register \<lparr>prototype = True, webkit = False, msie = False\<rparr>
        [(KEY_F, False, False, False) \<mapsto> Function ''b''] KEY_F (Function ''cb'') False
       = (ConflictError (KEY_F, False, False, False),
          [(KEY_F, False, False, False) \<mapsto> Function ''b''],
          snd (snd (register \<lparr>prototype = True, webkit = False, msie = False\<rparr>
                      [(KEY_F, False, False, False) \<mapsto> Function ''b''] KEY_F
                      (Function ''cb'') False)))"
    using register_conflict
            [of "[(KEY_F, False, False, False) \<mapsto> Function ''b'']" KEY_F "Function ''b''" False
                "\<lparr>prototype = True, webkit = False, msie = False\<rparr>" "Function ''cb''"]
    by (simp add: index_of_70 broken_70)
  have registered:
    "register \<lparr>prototype = True, webkit = False, msie = False\<rparr> Map.empty KEY_F
        (Function ''b'') False
       = (Registered, [(KEY_F, False, False, False) \<mapsto> Function ''b''],
          snd (snd (register \<lparr>prototype = True, webkit = False, msie = False\<rparr> Map.empty KEY_F
                      (Function ''b'') False)))"
    by (simp add: register_70)
  from register_alerts [OF refused] register_alerts [OF conflict] register_alerts [OF registered]
  show ?thesis
    by (simp add: index_of_70)
qed

section \<open>Ctrl, Shift and Alt alone\<close>

text \<open>
  Claim C10, as it is worded, fails for one of its three keys: \<^verbatim>\<open>KEY.ALT\<close> (1024) is in
  the list of unmappable keys, and the list is looked at before the index is computed. So
  registering 1024 without the override shows the alert and stores nothing, under 18 or
  anywhere else.
\<close>

theorem solitary_alt_refused_counterexample:
  "register \<lparr>prototype = True, webkit = False, msie = False\<rparr> Map.empty KEY_ALT
      (Function ''cb'') False
     = (BrokenChordError ''Alt is unmappable in IE7 (activate menu)'', Map.empty,
        [Alert (broken_alert ''Alt is unmappable in IE7 (activate menu)'')])
   \<and> fst (snd (register \<lparr>prototype = True, webkit = False, msie = False\<rparr> Map.empty KEY_ALT
                 (Function ''cb'') False)) (KEYALT, False, False, False)
     = None"
proof -
  have "register \<lparr>prototype = True, webkit = False, msie = False\<rparr> Map.empty KEY_ALT
          (Function ''cb'') False
        = (BrokenChordError ''Alt is unmappable in IE7 (activate menu)'', Map.empty,
           [Alert (broken_alert ''Alt is unmappable in IE7 (activate menu)'')])"
    by (rule register_refused [OF broken_ALT]) simp
  then show ?thesis
    by simp
qed

text \<open>
  Claim C10, amended. Registering the key specification that is exactly \<^verbatim>\<open>KEY.CTRL\<close>
  (256) or \<^verbatim>\<open>KEY.SHIFT\<close> (512) stores the handler under the key code of the modifier
  itself, 17 or 16, with the three flags false, and stores nothing else. \<^verbatim>\<open>KEY.ALT\<close>
  (1024) is in the list of unmappable keys: without the override it is refused and
  nothing is stored, with the override it is stored under key code 18 with the three
  flags false. Every other key specification whose low eight bits are zero, such as
  256 + 512, is stored under key code 0 with the flags of its modifier bits. Where a
  handler is stored, the index was not mapped before.
\<close>

theorem solitary_modifiers:
  "(keys (KEYCTRL, False, False, False) = None \<longrightarrow>
      register lib keys KEY_CTRL meth override
        = (Registered, keys((KEYCTRL, False, False, False) \<mapsto> meth), []))
   \<and> (keys (KEYSHIFT, False, False, False) = None \<longrightarrow>
      register lib keys KEY_SHIFT meth override
        = (Registered, keys((KEYSHIFT, False, False, False) \<mapsto> meth), []))
   \<and> (keys (KEYALT, False, False, False) = None \<longrightarrow>
      register lib keys KEY_ALT meth True
        = (Registered, keys((KEYALT, False, False, False) \<mapsto> meth), []))
   \<and> register lib keys KEY_ALT meth False
        = (BrokenChordError ''Alt is unmappable in IE7 (activate menu)'', keys,
           [Alert (broken_alert ''Alt is unmappable in IE7 (activate menu)'')])
   \<and> (key AND KEYMASK = 0 \<and> key \<notin> {KEY_CTRL, KEY_SHIFT, KEY_ALT}
        \<and> keys (0, key AND KEY_CTRL \<noteq> 0, key AND KEY_SHIFT \<noteq> 0, key AND KEY_ALT \<noteq> 0) = None \<longrightarrow>
      register lib keys key meth override
        = (Registered,
           keys((0, key AND KEY_CTRL \<noteq> 0, key AND KEY_SHIFT \<noteq> 0, key AND KEY_ALT \<noteq> 0) \<mapsto> meth),
           []))"
proof -
  have ctrl: "register lib keys KEY_CTRL meth override
                = (Registered, keys((KEYCTRL, False, False, False) \<mapsto> meth), [])"
    if "keys (KEYCTRL, False, False, False) = None"
    by (rule register_solitary) (use that broken_CTRL index_of_CTRL in simp_all)
  have shift: "register lib keys KEY_SHIFT meth override
                 = (Registered, keys((KEYSHIFT, False, False, False) \<mapsto> meth), [])"
    if "keys (KEYSHIFT, False, False, False) = None"
    by (rule register_solitary) (use that broken_SHIFT index_of_SHIFT in simp_all)
  have alt: "register lib keys KEY_ALT meth True
               = (Registered, keys((KEYALT, False, False, False) \<mapsto> meth), [])"
    if "keys (KEYALT, False, False, False) = None"
    by (rule register_solitary) (use that index_of_ALT in simp_all)
  have other: "register lib keys key meth override
                 = (Registered,
                    keys((0, key AND KEY_CTRL \<noteq> 0, key AND KEY_SHIFT \<noteq> 0, key AND KEY_ALT \<noteq> 0) \<mapsto> meth),
                    [])"
    if low: "key AND KEYMASK = 0" and not_solitary: "key \<notin> {KEY_CTRL, KEY_SHIFT, KEY_ALT}"
      and free: "keys (0, key AND KEY_CTRL \<noteq> 0, key AND KEY_SHIFT \<noteq> 0, key AND KEY_ALT \<noteq> 0) = None"
  proof -
    have index: "index_of key = (0, key AND KEY_CTRL \<noteq> 0, key AND KEY_SHIFT \<noteq> 0, key AND KEY_ALT \<noteq> 0)"
      using low not_solitary by (rule index_of_zero)
    have "broken key = None"
    proof (rule ccontr)
      assume "broken key \<noteq> None"
      from broken_low_byte [OF this] low not_solitary show False
        by simp
    qed
    with register_free [of override key keys lib meth] index free show ?thesis
      by (simp add: Let_def isAccessKey_def)
  qed
  have refused: "register lib keys KEY_ALT meth False
                   = (BrokenChordError ''Alt is unmappable in IE7 (activate menu)'', keys,
                      [Alert (broken_alert ''Alt is unmappable in IE7 (activate menu)'')])"
    by (rule register_refused [OF broken_ALT]) simp
  from ctrl shift alt refused other show ?thesis
    by blast
qed

theorem solitary_modifiers_witness:
  "register \<lparr>prototype = True, webkit = False, msie = True\<rparr> Map.empty KEY_CTRL (Function ''cb'') False
     = (Registered, [(KEYCTRL, False, False, False) \<mapsto> Function ''cb''], [])
   \<and> register \<lparr>prototype = True, webkit = False, msie = True\<rparr> Map.empty KEY_SHIFT (Function ''cb'') False
     = (Registered, [(KEYSHIFT, False, False, False) \<mapsto> Function ''cb''], [])
   \<and> register \<lparr>prototype = True, webkit = False, msie = True\<rparr> Map.empty KEY_ALT (Function ''cb'') True
     = (Registered, [(KEYALT, False, False, False) \<mapsto> Function ''cb''], [])
   \<and> register \<lparr>prototype = True, webkit = False, msie = True\<rparr> Map.empty (KEY_CTRL + KEY_SHIFT)
        (Function ''cb'') False
     = (Registered, [(0, True, True, False) \<mapsto> Function ''cb''], [])"
  using solitary_modifiers
          [of Map.empty "\<lparr>prototype = True, webkit = False, msie = True\<rparr>" "Function ''cb''" False
              "KEY_CTRL + KEY_SHIFT"]
  by simp

section \<open>The keydown listener on a mapped key\<close>

text \<open>
  When the keyspec of a \<^verbatim>\<open>keydown\<close> event is mapped, the listener stops the event and
  calls no function. In Internet Explorer it also sets the key code of a function key to
  zero, and moves the access-key \<^verbatim>\<open>div\<close> of Alt with a digit or a letter. The two
  adjustments never meet, since a function key is not an access key.
\<close>

theorem keydown_stops_mapped:
  assumes "keys_at keys (cancel_key inherited lib event) = Some h"
  shows "cancel inherited lib keys event =
           [StopEvent event]
           @ (if msie lib \<and> 112 \<le> keyCode event \<and> keyCode event \<le> 123 then [ZeroKeyCode] else [])
           @ (if msie lib \<and> isAccessKey (keyCode event) (altKey event)
              then [SetStyle (''__altkeyhandler_'' @ number_text (keyCode event))] else [])"
  using assms by (rule cancel_mapped)

theorem keydown_stops_mapped_witness:
  "cancel object_members \<lparr>prototype = True, webkit = False, msie = True\<rparr>
      [(KEY_F4, False, False, False) \<mapsto> ContextPair ''menu'' ''dropDown'']
      \<lparr>keyCode = KEY_F4, ctrlKey = False, shiftKey = False, altKey = False,
       keyIdentifier = None, target = ''myDiv''\<rparr>
     = [StopEvent \<lparr>keyCode = KEY_F4, ctrlKey = False, shiftKey = False, altKey = False,
                   keyIdentifier = None, target = ''myDiv''\<rparr>,
        ZeroKeyCode]"
proof -
  have mapped:
    "keys_at [(KEY_F4, False, False, False) \<mapsto> ContextPair ''menu'' ''dropDown'']
       (cancel_key object_members \<lparr>prototype = True, webkit = False, msie = True\<rparr>
          \<lparr>keyCode = KEY_F4, ctrlKey = False, shiftKey = False, altKey = False,
           keyIdentifier = None, target = ''myDiv''\<rparr>)
       = Some (ContextPair ''menu'' ''dropDown'')"
    by (simp add: cancel_key_plain keys_at_def)
  from keydown_stops_mapped
         [of "[(KEY_F4, False, False, False) \<mapsto> ContextPair ''menu'' ''dropDown'']"
             object_members
             "\<lparr>prototype = True, webkit = False, msie = True\<rparr>"
             "\<lparr>keyCode = KEY_F4, ctrlKey = False, shiftKey = False, altKey = False,
               keyIdentifier = None, target = ''myDiv''\<rparr>"
             "ContextPair ''menu'' ''dropDown''",
          OF mapped]
  show ?thesis
    by (simp add: isAccessKey_def)
qed

section \<open>The alias of the umlaut key and an older mapping\<close>

text \<open>
  The mapping under key code 186 that comes with the umlaut key is written without a
  look at what is there: a handler registered under 186 before is replaced, and the
  call ends without a conflict.
\<close>

theorem umlaut_alias_overwrites:
  assumes "decode key = (KEY_UMLAUT, ctrl, shift, alt)"
    and "keys (KEY_UMLAUT, ctrl, shift, alt) = None"
    and "keys (KEY_UMLAUT_2, ctrl, shift, alt) = Some b"
  shows "register lib keys key meth True
           = (Registered,
              keys((KEY_UMLAUT, ctrl, shift, alt) \<mapsto> meth, (KEY_UMLAUT_2, ctrl, shift, alt) \<mapsto> meth),
              [])"
proof -
  from assms(1) have index: "index_of key = (KEY_UMLAUT, ctrl, shift, alt)"
    by (simp add: index_of_decode)
  with register_free [of True key keys lib meth] assms(2) show ?thesis
    by (simp add: Let_def not_access_umlaut)
qed

theorem umlaut_alias_overwrites_witness:
  "register \<lparr>prototype = True, webkit = False, msie = False\<rparr>
      [(KEY_UMLAUT_2, False, False, False) \<mapsto> Function ''old''] KEY_UMLAUT (Function ''new'') True
     = (Registered,
        [(KEY_UMLAUT_2, False, False, False) \<mapsto> Function ''old'',
         (KEY_UMLAUT, False, False, False) \<mapsto> Function ''new'',
         (KEY_UMLAUT_2, False, False, False) \<mapsto> Function ''new''],
        [])"
proof -
  have code: "decode KEY_UMLAUT = (KEY_UMLAUT, False, False, False)"
    by (simp add: decode_def)
  from umlaut_alias_overwrites
         [of KEY_UMLAUT False False False "[(KEY_UMLAUT_2, False, False, False) \<mapsto> Function ''old'']"
             "Function ''old''" "\<lparr>prototype = True, webkit = False, msie = False\<rparr>" "Function ''new''",
          OF code]
  show ?thesis
    by simp
qed

section \<open>Names that objects inherit\<close>

text \<open>
  On a platform with key identifiers, an event whose identifier is an inherited name that
  the translation table does not hold itself finds no handler, whatever is mapped: the
  listeners do nothing, also for a key code that is mapped.
\<close>

theorem inherited_identifier_no_action:
  assumes "webkit lib" and "keyIdentifier event = Some ident" and "ident \<noteq> []"
    and "ident \<in> inherited" and "safariTranslator ident = None"
  shows "cancel_key inherited lib event = (Member ident, ctrlKey event, shiftKey event, altKey event)
         \<and> cancel inherited lib keys event = []
         \<and> monitor inherited lib keys event = []"
proof -
  from assms have key:
    "cancel_key inherited lib event = (Member ident, ctrlKey event, shiftKey event, altKey event)"
    by (simp add: cancel_key_def translatable_def table_entry_def)
  then have "keys_at keys (cancel_key inherited lib event) = None"
    by (simp add: keys_at_def)
  with key show ?thesis
    by (simp add: cancel_def monitor_def monitor_key_cancel_key)
qed

theorem inherited_identifier_no_action_witness:
  "cancel_key object_members \<lparr>prototype = True, webkit = True, msie = False\<rparr>
      \<lparr>keyCode = KEY_F, ctrlKey = False, shiftKey = False, altKey = False,
       keyIdentifier = Some ''toString'', target = ''myDiv''\<rparr>
     = (Member ''toString'', False, False, False)
   \<and> monitor object_members \<lparr>prototype = True, webkit = True, msie = False\<rparr>
        [(KEY_F, False, False, False) \<mapsto> Function ''cb'']
        \<lparr>keyCode = KEY_F, ctrlKey = False, shiftKey = False, altKey = False,
         keyIdentifier = Some ''toString'', target = ''myDiv''\<rparr>
     = []"
proof -
  have member: "''toString'' \<in> object_members"
    by (simp add: object_members_def)
  have absent: "safariTranslator ''toString'' = None"
    by (simp add: safariTranslator_def)
  from inherited_identifier_no_action
         [of "\<lparr>prototype = True, webkit = True, msie = False\<rparr>"
             "\<lparr>keyCode = KEY_F, ctrlKey = False, shiftKey = False, altKey = False,
               keyIdentifier = Some ''toString'', target = ''myDiv''\<rparr>"
             "''toString''" object_members "[(KEY_F, False, False, False) \<mapsto> Function ''cb'']",
          OF _ _ _ member absent]
  show ?thesis
    by simp
qed

text \<open>
  \<^verbatim>\<open>Keyboard.register\<close> on an element whose id is an inherited name, with no handler
  stored under it, ends in an error: no handler is made and nothing is registered.
\<close>

theorem inherited_id_register_fails:
  assumes "name \<in> inherited" and "handlers (Element name) = None"
  shows "Keyboard_register inherited lib True handlers (Element name) key meth override
           = (ScriptError, handlers, [])"
  using assms by (simp add: Keyboard_register_def handlerFor_def handlers_at_def)

theorem inherited_id_register_fails_witness:
  "Keyboard_register object_members \<lparr>prototype = True, webkit = False, msie = False\<rparr> True
      Map.empty (Element ''constructor'') KEY_F (Function ''cb'') False
     = (ScriptError, Map.empty, [])"
proof -
  have member: "''constructor'' \<in> object_members"
    by (simp add: object_members_def)
  have "Map.empty (Element ''constructor'') = (None :: keys option)"
    by simp
  from inherited_id_register_fails
         [OF member this, of "\<lparr>prototype = True, webkit = False, msie = False\<rparr>" KEY_F
             "Function ''cb''" False]
  show ?thesis .
qed

end
